theory Spec2Isabelle
  imports Complex_Main "HOL-Library.Word" "HOL-Library.Sublist"
begin

section \<open>JavaScript strings\<close>

text \<open>
  A JavaScript string is a sequence of UTF-16 code units, and the regular expressions of
  the program (written without the \<open>u\<close> flag) work on code units. A code unit is a
  16-bit word; \<open>ascii\<close> turns a literal of ASCII characters into its code units.
\<close>

type_synonym jschar = "16 word"
type_synonym jsstring = "jschar list"

definition ascii :: "string \<Rightarrow> jsstring" where
  "ascii s = map of_char s"

abbreviation TAB :: jschar where "TAB \<equiv> 0x09"
abbreviation NL :: jschar where "NL \<equiv> 0x0A"
abbreviation CR :: jschar where "CR \<equiv> 0x0D"
abbreviation SP :: jschar where "SP \<equiv> 0x20"
abbreviation QUOT :: jschar where "QUOT \<equiv> 0x22"
abbreviation AMP :: jschar where "AMP \<equiv> 0x26"
abbreviation APOS :: jschar where "APOS \<equiv> 0x27"
abbreviation PLUS :: jschar where "PLUS \<equiv> 0x2B"
abbreviation MINUS :: jschar where "MINUS \<equiv> 0x2D"
abbreviation DOT :: jschar where "DOT \<equiv> 0x2E"
abbreviation LT :: jschar where "LT \<equiv> 0x3C"
abbreviation GT :: jschar where "GT \<equiv> 0x3E"

text \<open>
  The class \<open>\s\<close> of a regular expression, which is also what \<open>String.prototype.trim\<close>
  strips: the WhiteSpace and LineTerminator code points of ECMAScript (tab, line feed,
  vertical tab, form feed, carriage return, space, no-break space, the Unicode space
  separators, line and paragraph separator, byte order mark).
\<close>

definition isSpace :: "jschar \<Rightarrow> bool" where
  "isSpace c \<longleftrightarrow>
     c = 0x09 \<or> c = 0x0A \<or> c = 0x0B \<or> c = 0x0C \<or> c = 0x0D \<or> c = 0x20 \<or> c = 0xA0 \<or>
     c = 0x1680 \<or> (0x2000 \<le> c \<and> c \<le> 0x200A) \<or> c = 0x2028 \<or> c = 0x2029 \<or>
     c = 0x202F \<or> c = 0x205F \<or> c = 0x3000 \<or> c = 0xFEFF"

text \<open>\<open>str.trim()\<close>: white space removed at both ends.\<close>

definition trim :: "jsstring \<Rightarrow> jsstring" where
  "trim s = rev (dropWhile isSpace (rev (dropWhile isSpace s)))"

text \<open>
  \<open>str.replace(/c/g, r)\<close> for a pattern of one literal character: every occurrence of
  the character is replaced by \<open>r\<close> (none of the replacement strings of the program
  contains a \<open>$\<close> pattern).
\<close>

definition replaceAll :: "jschar \<Rightarrow> jsstring \<Rightarrow> jsstring \<Rightarrow> jsstring" where
  "replaceAll c r str = concat (map (\<lambda>x. if x = c then r else [x]) str)"

section \<open>The HTML escaper of the server (server.js)\<close>

text \<open>
  \<^verbatim>\<open>
  const escapeHtml = (str = '') => str
    .replace(/&/g, '&amp;').replace(/</g, '&lt;').replace(/>/g, '&gt;')
    .replace(/"/g, '&quot;').replace(/'/g, '&#39;');
  \<close>
  Five passes over the string, the ampersand first.
\<close>

definition escapeHtml :: "jsstring \<Rightarrow> jsstring" where
  "escapeHtml str =
     replaceAll APOS (ascii ''&#39;'')
       (replaceAll QUOT (ascii ''&quot;'')
         (replaceAll GT (ascii ''&gt;'')
           (replaceAll LT (ascii ''&lt;'')
             (replaceAll AMP (ascii ''&amp;'') str))))"

text \<open>The five entities the escaper produces.\<close>

definition entities :: "jsstring list" where
  "entities = [ascii ''&amp;'', ascii ''&lt;'', ascii ''&gt;'', ascii ''&quot;'', ascii ''&#39;'']"

text \<open>What one character of the input becomes after the five passes.\<close>

definition escapeChar :: "jschar \<Rightarrow> jsstring" where
  "escapeChar c =
     (if c = AMP then ascii ''&amp;''
      else if c = LT then ascii ''&lt;''
      else if c = GT then ascii ''&gt;''
      else if c = QUOT then ascii ''&quot;''
      else if c = APOS then ascii ''&#39;''
      else [c])"

section \<open>The table parser (utils/pdfDashboard.js, extractTable)\<close>

text \<open>\<open>text.split('\n')\<close>: the pieces between line feeds; the empty text is one empty line.\<close>

primrec splitLines :: "jsstring \<Rightarrow> jsstring list" where
  "splitLines [] = [[]]"
| "splitLines (c # cs) =
     (if c = NL then [] # splitLines cs
      else (case splitLines cs of l # ls \<Rightarrow> (c # l) # ls | [] \<Rightarrow> [[c]]))"

text \<open>
  The regular expression \<^verbatim>\<open>/\t|\s{2,}/\<close> tried at the start of a string: the length of
  its match there, 0 when it does not match. The first alternative is one tab; the
  second is a greedy run of two or more white-space characters.
\<close>

definition sepLen :: "jsstring \<Rightarrow> nat" where
  "sepLen s =
     (case s of
        [] \<Rightarrow> 0
      | c # cs \<Rightarrow>
          if c = TAB then 1
          else if 2 \<le> length (takeWhile isSpace s) then length (takeWhile isSpace s)
          else 0)"

text \<open>\<^verbatim>\<open>line.match(/\t|\s{2,}/)\<close> is not null: the expression matches at some position.\<close>

fun hasSep :: "jsstring \<Rightarrow> bool" where
  "hasSep [] = False"
| "hasSep (c # cs) = (0 < sepLen (c # cs) \<or> hasSep cs)"

text \<open>
  \<^verbatim>\<open>str.split(/\t|\s{2,}/)\<close> is \<open>splitSep [] str\<close>: the scan moves one character at a time,
  collecting the current piece in \<open>cur\<close>; at a match the piece is emitted and the scan
  goes on behind the match; the last piece is emitted at the end of the string, so two
  matches side by side, and a match at the end, give an empty piece.
\<close>

function splitSep :: "jsstring \<Rightarrow> jsstring \<Rightarrow> jsstring list" where
  "splitSep cur [] = [cur]"
| "splitSep cur (c # cs) =
     (if 0 < sepLen (c # cs) then cur # splitSep [] (drop (sepLen (c # cs)) (c # cs))
      else splitSep (cur @ [c]) cs)"
  by pat_completeness auto
termination
  by (relation "measure (\<lambda>(cur, s). length s)") auto

text \<open>
  \<^verbatim>\<open>lines = data.text.split('\n').filter(line => line.trim().length > 0 && line.match(/\t|\s{2,}/))\<close>
\<close>

definition tableLines :: "jsstring \<Rightarrow> jsstring list" where
  "tableLines text = filter (\<lambda>line. 0 < length (trim line) \<and> hasSep line) (splitLines text)"

text \<open>
  \<^verbatim>\<open>line.trim().split(/\t|\s{2,}/).filter(cell => cell.trim() !== '')\<close>
\<close>

definition splitCells :: "jsstring \<Rightarrow> jsstring list" where
  "splitCells line = filter (\<lambda>cell. trim cell \<noteq> []) (splitSep [] (trim line))"

subsection \<open>Numbers: \<open>isNaN\<close> and \<open>Number\<close> on a string\<close>

text \<open>
  Both built-ins apply ECMAScript's StringToNumber: white space is stripped at both ends,
  the empty string is 0, and the rest must be a StrNumericLiteral: a signed decimal
  literal (digits with an optional fraction and an optional exponent, or \<open>Infinity\<close>) or an
  unsigned hexadecimal, octal or binary integer literal; anything else is NaN.
  The mathematical value of the literal is rounded to the nearest double, ties to the
  even mantissa; a value beyond the range of doubles becomes an infinity and a value
  below the smallest double becomes a zero. (ECMAScript lets an implementation round a
  literal of more than 20 significant digits from either of its two neighbours of 20
  digits; V8, which runs this program, rounds the literal itself, as here.)
\<close>

text \<open>
  A Number: \<open>Finite r\<close> is the double whose value is the rational \<open>r\<close>, with \<open>Finite 0\<close> the
  positive zero; \<open>NegZero\<close> is the negative zero.
\<close>

datatype jsnum = NaN | PosInfinity | NegInfinity | NegZero | Finite rat

subsubsection \<open>Rounding to a double\<close>

text \<open>The number of binary digits of a natural number.\<close>

fun bitLength :: "nat \<Rightarrow> nat" where
  "bitLength n = (if n = 0 then 0 else 1 + bitLength (n div 2))"

declare bitLength.simps [simp del]

definition pow2 :: "int \<Rightarrow> rat" where
  "pow2 k = (if 0 \<le> k then 2 ^ nat k else 1 / 2 ^ nat (- k))"

text \<open>
  The binary exponent of a positive rational \<open>q\<close>, the \<open>e\<close> with \<open>2^e \<le> q < 2^(e+1)\<close>: for
  \<open>q \<ge> 1\<close> one less than the number of binary digits of its integer part; for \<open>q < 1\<close>
  found from the integer part of \<open>1 / q\<close>, which gives \<open>k\<close> with \<open>2^(k-1) < q \<le> 2^k\<close>.
\<close>

definition exponentNear :: "rat \<Rightarrow> int \<Rightarrow> int" where
  "exponentNear q k = (if pow2 k \<le> q then k else k - 1)"

definition binaryExponent :: "rat \<Rightarrow> int" where
  "binaryExponent q =
     (if 1 \<le> q then int (bitLength (nat \<lfloor>q\<rfloor>)) - 1
      else exponentNear q (1 - int (bitLength (nat \<lfloor>1 / q\<rfloor>))))"

text \<open>The nearest integer, a tie going to the even one; \<open>f\<close> is the integer part.\<close>

definition roundNear :: "rat \<Rightarrow> int \<Rightarrow> int" where
  "roundNear q f =
     (if q - of_int f < 1 / 2 then f
      else if 1 / 2 < q - of_int f then f + 1
      else if even f then f else f + 1)"

definition roundHalfEven :: "rat \<Rightarrow> int" where
  "roundHalfEven q = roundNear q \<lfloor>q\<rfloor>"

text \<open>
  A double of binary exponent \<open>e\<close> is a multiple of \<open>2^(e - 52)\<close>, and of \<open>2^(-1074)\<close> when it
  is subnormal (\<open>e < -1022\<close>). The mantissa \<open>m\<close> is the value in that unit, rounded; it is
  at most \<open>2^53\<close>. The result is an infinity when the exponent is beyond 1023, or is 1023
  and the rounding carries the mantissa to \<open>2^53\<close>.
\<close>

definition doubleUnit :: "int \<Rightarrow> rat" where
  "doubleUnit e = pow2 (max e (- 1022) - 52)"

definition fromMantissa :: "int \<Rightarrow> int \<Rightarrow> jsnum" where
  "fromMantissa e m =
     (if e = 1023 \<and> m = 2 ^ 53 then PosInfinity else Finite (of_int m * doubleUnit e))"

definition roundWithExponent :: "rat \<Rightarrow> int \<Rightarrow> jsnum" where
  "roundWithExponent q e =
     (if 1024 \<le> e then PosInfinity
      else fromMantissa e (roundHalfEven (q / doubleUnit e)))"

text \<open>The double nearest to a rational that is not negative.\<close>

definition roundToDouble :: "rat \<Rightarrow> jsnum" where
  "roundToDouble q = (if q \<le> 0 then Finite 0 else roundWithExponent q (binaryExponent q))"

definition isDigit :: "jschar \<Rightarrow> bool" where
  "isDigit c \<longleftrightarrow> 0x30 \<le> c \<and> c \<le> 0x39"

definition isHexDigit :: "jschar \<Rightarrow> bool" where
  "isHexDigit c \<longleftrightarrow> isDigit c \<or> (0x41 \<le> c \<and> c \<le> 0x46) \<or> (0x61 \<le> c \<and> c \<le> 0x66)"

definition isOctalDigit :: "jschar \<Rightarrow> bool" where
  "isOctalDigit c \<longleftrightarrow> 0x30 \<le> c \<and> c \<le> 0x37"

definition isBinaryDigit :: "jschar \<Rightarrow> bool" where
  "isBinaryDigit c \<longleftrightarrow> c = 0x30 \<or> c = 0x31"

definition digitValue :: "jschar \<Rightarrow> nat" where
  "digitValue c =
     (if isDigit c then unat (c - 0x30)
      else if 0x41 \<le> c \<and> c \<le> 0x46 then unat (c - 0x41) + 10
      else unat (c - 0x61) + 10)"

definition digitsValue :: "nat \<Rightarrow> jsstring \<Rightarrow> nat" where
  "digitsValue base ds = foldl (\<lambda>a c. base * a + digitValue c) 0 ds"

text \<open>
  What follows the mantissa of a decimal literal: nothing, or \<open>e\<close> or \<open>E\<close>, an optional
  sign and at least one digit. The result is the exponent, None when the text is neither.
\<close>

definition exponentPart :: "jsstring \<Rightarrow> int option" where
  "exponentPart s =
     (case s of
        [] \<Rightarrow> Some 0
      | c # cs \<Rightarrow>
          if c = 0x65 \<or> c = 0x45 then
            (let neg = (cs \<noteq> [] \<and> hd cs = MINUS);
                 ds = (if cs \<noteq> [] \<and> (hd cs = PLUS \<or> hd cs = MINUS) then tl cs else cs)
             in if ds \<noteq> [] \<and> list_all isDigit ds
                then Some (if neg then - int (digitsValue 10 ds) else int (digitsValue 10 ds))
                else None)
          else None)"

definition scale10 :: "rat \<Rightarrow> int \<Rightarrow> rat" where
  "scale10 m e = (if 0 \<le> e then m * 10 ^ nat e else m / 10 ^ nat (- e))"

definition strUnsignedDecimalLiteral :: "jsstring \<Rightarrow> jsnum" where
  "strUnsignedDecimalLiteral s =
     (if s = ascii ''Infinity'' then PosInfinity
      else
        let ip = takeWhile isDigit s;
            r1 = dropWhile isDigit s;
            dot = (r1 \<noteq> [] \<and> hd r1 = DOT);
            fp = (if dot then takeWhile isDigit (tl r1) else []);
            r2 = (if dot then dropWhile isDigit (tl r1) else r1)
        in if ip = [] \<and> fp = [] then NaN
           else (case exponentPart r2 of
                   None \<Rightarrow> NaN
                 | Some e \<Rightarrow>
                     roundToDouble (scale10 (of_nat (digitsValue 10 ip)
                                             + of_nat (digitsValue 10 fp) / 10 ^ length fp) e)))"

text \<open>The sign of a Number changed; the two zeros change into each other.\<close>

definition negate :: "jsnum \<Rightarrow> jsnum" where
  "negate x =
     (case x of NaN \<Rightarrow> NaN | PosInfinity \<Rightarrow> NegInfinity | NegInfinity \<Rightarrow> PosInfinity
      | NegZero \<Rightarrow> Finite 0
      | Finite r \<Rightarrow> if r = 0 then NegZero else Finite (- r))"

definition strDecimalLiteral :: "jsstring \<Rightarrow> jsnum" where
  "strDecimalLiteral s =
     (case s of
        [] \<Rightarrow> NaN
      | c # cs \<Rightarrow>
          if c = PLUS then strUnsignedDecimalLiteral cs
          else if c = MINUS then negate (strUnsignedDecimalLiteral cs)
          else strUnsignedDecimalLiteral s)"

text \<open>
  \<open>0x\<close>, \<open>0o\<close>, \<open>0b\<close> (in either case) and at least one digit of the base; None when the
  string does not start with such a prefix.
\<close>

definition nonDecimalIntegerLiteral :: "jsstring \<Rightarrow> jsnum option" where
  "nonDecimalIntegerLiteral s =
     (case s of
        z # p # ds \<Rightarrow>
          if z = 0x30 \<and> (p = 0x78 \<or> p = 0x58) then
            Some (if ds \<noteq> [] \<and> list_all isHexDigit ds
                  then roundToDouble (of_nat (digitsValue 16 ds)) else NaN)
          else if z = 0x30 \<and> (p = 0x6F \<or> p = 0x4F) then
            Some (if ds \<noteq> [] \<and> list_all isOctalDigit ds
                  then roundToDouble (of_nat (digitsValue 8 ds)) else NaN)
          else if z = 0x30 \<and> (p = 0x62 \<or> p = 0x42) then
            Some (if ds \<noteq> [] \<and> list_all isBinaryDigit ds
                  then roundToDouble (of_nat (digitsValue 2 ds)) else NaN)
          else None
      | _ \<Rightarrow> None)"

definition toNumber :: "jsstring \<Rightarrow> jsnum" where
  "toNumber str =
     (let s = trim str
      in if s = [] then Finite 0
         else (case nonDecimalIntegerLiteral s of
                 Some n \<Rightarrow> n
               | None \<Rightarrow> strDecimalLiteral s))"

text \<open>\<open>isNaN(x)\<close> on a string \<open>x\<close> is \<open>isNaN (toNumber x)\<close>.\<close>

definition isNaN :: "jsnum \<Rightarrow> bool" where
  "isNaN x \<longleftrightarrow> x = NaN"

subsection \<open>The table\<close>

datatype cell = Num jsnum | Str jsstring

text \<open>The result \<open>{ headers, values }\<close>; the field \<open>values\<close> is written \<open>values'\<close>.\<close>

record table =
  headers :: "jsstring list"
  values' :: "cell list list"

text \<open>The two errors of the parser, each a JavaScript \<open>Error\<close> with its message.\<close>

datatype error = Error jsstring

definition noTableLikeData :: error where
  "noTableLikeData =
     Error (ascii ''No table-like data found in the PDF or insufficient rows for a table.'')"

definition noValidDataRows :: error where
  "noValidDataRows =
     Error (ascii ''Table headers found, but no valid data rows match the header count.'')"

text \<open>
  \<^verbatim>\<open>
  value => { const trimmed = value.trim();
             return !isNaN(trimmed) && trimmed !== '' ? Number(trimmed) : trimmed; }
  \<close>
\<close>

definition coerce :: "jsstring \<Rightarrow> cell" where
  "coerce v =
     (let trimmed = trim v
      in if \<not> isNaN (toNumber trimmed) \<and> trimmed \<noteq> [] then Num (toNumber trimmed)
         else Str trimmed)"

text \<open>
  The part of \<open>extractTable\<close> that works on the text of the PDF. \<open>rows[0]\<close> is read only
  after the check that there are at least two lines.
\<close>

definition parseTable :: "jsstring \<Rightarrow> error + table" where
  "parseTable text =
     (let lines = tableLines text
      in if length lines < 2 then Inl noTableLikeData
         else
           let rows = map splitCells lines;
               hs = map trim (hd rows);
               vs = map (map coerce) (filter (\<lambda>row. length row = length hs) (tl rows))
           in if length vs = 0 then Inl noValidDataRows
              else Inr \<lparr>headers = hs, values' = vs\<rparr>)"

section \<open>The renderer of the table dashboard (utils/pdfDashboard.js, generateHTML)\<close>

text \<open>Lines of literal text, each ended by a line feed.\<close>

definition textLines :: "string list \<Rightarrow> jsstring" where
  "textLines ls = concat (map (\<lambda>l. ascii l @ [NL]) ls)"

text \<open>
  The template literal of \<open>generateHTML\<close>, cut at its two placeholders
  \<^verbatim>\<open>${tableHeader}\<close> and \<^verbatim>\<open>${tableRows}\<close>. The title holds the code point U+1F4CA, two
  code units.
\<close>

definition pageHead :: jsstring where
  \<open>pageHead =
     [NL] @ textLines
      [''    <!DOCTYPE html>'',
       ''    <html>'',
       ''      <head>'',
       ''        <meta charset="UTF-8">'',
       ''        <meta name="viewport" content="width=device-width, initial-scale=1.0">'',
       ''        <title>Dashboard</title>'',
       ''        <link href="https://cdn.tailwindcss.com" rel="stylesheet">'',
       ''        <link href="https://fonts.googleapis.com/css2?family=Inter:wght@400;600;700&display=swap" rel="stylesheet">'',
       ''        <style>'',
       ''          body { font-family: 'Inter', sans-serif; background-color: #f0f4f8; margin: 0; padding: 20px; }'',
       ''          .container { max-width: 900px; margin: 20px auto; background-color: #ffffff; padding: 30px; border-radius: 12px; box-shadow: 0 4px 12px rgba(0, 0, 0, 0.1); }'',
       ''          h1 { font-size: 2.5rem; color: #4338ca; text-align: center; margin-bottom: 25px; font-weight: 700; }'',
       ''          table { border-collapse: collapse; width: 100%; margin-top: 20px; border-radius: 8px; overflow: hidden; }'',
       ''          th, td { border: 1px solid #e2e8f0; padding: 12px 15px; text-align: left; }'',
       ''          th { background-color: #e0f2fe; color: #1e3a8a; font-weight: 600; text-transform: uppercase; font-size: 0.85rem; }'',
       ''          tr:nth-child(even) { background-color: #f8fafc; }'',
       ''          tr:hover { background-color: #eef2ff; }'',
       ''          td { color: #334155; font-size: 0.9rem; }'',
       ''        </style>'',
       ''      </head>'',
       ''      <body>'',
       ''        <div class="container">'']
     @ ascii ''          <h1>'' @ [0xD83D, 0xDCCA] @ textLines
      ['' PDF Table Dashboard</h1>'',
       ''          <div class="overflow-x-auto rounded-lg shadow-md">'',
       ''            <table>'',
       ''              <thead>'']
     @ ascii ''                ''\<close>

definition pageMiddle :: jsstring where
  \<open>pageMiddle =
     [NL] @ textLines
      [''              </thead>'',
       ''              <tbody>'']
     @ ascii ''                ''\<close>

definition pageTail :: jsstring where
  \<open>pageTail =
     [NL] @ textLines
      [''              </tbody>'',
       ''            </table>'',
       ''          </div>'',
       ''        </div>'',
       ''      </body>'',
       ''    </html>'']
     @ ascii ''  ''\<close>

text \<open>
  A cell of the parser is a string or a number, so the \<open>typeof cell === 'object'\<close> branch
  of the renderer (\<open>JSON.stringify\<close>) is never taken on a parsed table and has no
  counterpart in \<open>cell\<close>. A string goes into the template as it is; a number goes
  through \<open>Number::toString\<close>, which is a parameter here.
\<close>

definition renderCell :: "(jsnum \<Rightarrow> jsstring) \<Rightarrow> cell \<Rightarrow> jsstring" where
  "renderCell numberToString c = (case c of Num n \<Rightarrow> numberToString n | Str s \<Rightarrow> s)"

text \<open>
  \<^verbatim>\<open>const tableHeader = `<tr>${headers.map(header => `<th>${header}</th>`).join('')}</tr>`;\<close>
\<close>

definition tableHeader :: "jsstring list \<Rightarrow> jsstring" where
  "tableHeader hs =
     ascii ''<tr>'' @ concat (map (\<lambda>header. ascii ''<th>'' @ header @ ascii ''</th>'') hs)
     @ ascii ''</tr>''"

text \<open>
  \<^verbatim>\<open>const tableRows = values.map(row => `<tr>${row.map(cell => `<td>${...}</td>`).join('')}</tr>`).join('');\<close>
\<close>

definition tableRows :: "(jsnum \<Rightarrow> jsstring) \<Rightarrow> cell list list \<Rightarrow> jsstring" where
  "tableRows numberToString vs =
     concat (map (\<lambda>row.
       ascii ''<tr>''
       @ concat (map (\<lambda>c. ascii ''<td>'' @ renderCell numberToString c @ ascii ''</td>'') row)
       @ ascii ''</tr>'') vs)"

definition generateHTML :: "(jsnum \<Rightarrow> jsstring) \<Rightarrow> jsstring list \<Rightarrow> cell list list \<Rightarrow> jsstring" where
  "generateHTML numberToString hs vs =
     pageHead @ tableHeader hs @ pageMiddle @ tableRows numberToString vs @ pageTail"

section \<open>Files, paths and the environment\<close>

text \<open>
  What the program gets from Node and from the machine it runs on: the two directories
  (both \<open>path.join(__dirname, ...)\<close> expressions for the dashboards resolve to the same
  directory, so it is one field), \<open>path.join\<close> and \<open>path.basename\<close> (the extension to strip
  is optional), \<open>fs.readFile\<close> followed by \<open>pdfParse\<close> (the text of the PDF stored at a
  path, or the error of either step), the errors with which the file system refuses
  \<open>mkdir\<close> and \<open>writeFile\<close>, and \<open>Number::toString\<close>.
\<close>

record env =
  uploadsDir :: jsstring
  dashboardsDir :: jsstring
  pathJoin :: "jsstring \<Rightarrow> jsstring \<Rightarrow> jsstring"
  pathBasename :: "jsstring \<Rightarrow> jsstring option \<Rightarrow> jsstring"
  readPdf :: "jsstring \<Rightarrow> error + jsstring"
  mkdirError :: "jsstring \<Rightarrow> error option"
  writeError :: "jsstring \<Rightarrow> error option"
  numberToString :: "jsnum \<Rightarrow> jsstring"

text \<open>
  Every call that leaves the process is recorded in order: the three file-system calls
  and the HTTP request to the language model that the \<open>/ask\<close> handler makes with
  \<open>axios.post\<close>.
\<close>

datatype effect = FsRead jsstring | FsMkdir jsstring | FsWrite jsstring | HttpPost jsstring

record world =
  files :: "jsstring \<Rightarrow> jsstring option"
  effects :: "effect list"

definition fsReadPdf :: "env \<Rightarrow> world \<Rightarrow> jsstring \<Rightarrow> (error + jsstring) \<times> world" where
  "fsReadPdf e w p = (readPdf e p, w\<lparr>effects := effects w @ [FsRead p]\<rparr>)"

definition fsMkdir :: "env \<Rightarrow> world \<Rightarrow> jsstring \<Rightarrow> (error + unit) \<times> world" where
  "fsMkdir e w d =
     (case mkdirError e d of
        Some err \<Rightarrow> (Inl err, w\<lparr>effects := effects w @ [FsMkdir d]\<rparr>)
      | None \<Rightarrow> (Inr (), w\<lparr>effects := effects w @ [FsMkdir d]\<rparr>))"

definition fsWriteFile :: "env \<Rightarrow> world \<Rightarrow> jsstring \<Rightarrow> jsstring \<Rightarrow> (error + unit) \<times> world" where
  "fsWriteFile e w p content =
     (case writeError e p of
        Some err \<Rightarrow> (Inl err, w\<lparr>effects := effects w @ [FsWrite p]\<rparr>)
      | None \<Rightarrow> (Inr (), w\<lparr>files := (files w)(p \<mapsto> content), effects := effects w @ [FsWrite p]\<rparr>))"

section \<open>Extraction and publication (utils/pdfDashboard.js)\<close>

text \<open>\<open>extractTable\<close>: read the file, take its text, parse the text.\<close>

definition extractTable :: "env \<Rightarrow> world \<Rightarrow> jsstring \<Rightarrow> (error + table) \<times> world" where
  "extractTable e w filePath =
     (case fsReadPdf e w filePath of
        (Inl err, w') \<Rightarrow> (Inl err, w')
      | (Inr text, w') \<Rightarrow> (parseTable text, w'))"

text \<open>
  \<^verbatim>\<open>
  const saveHTMLToFile = async (htmlContent, filename) => {
    const dashboardDir = path.join(__dirname, '../../dashboards');
    await fs.mkdir(dashboardDir, { recursive: true });
    const outputPath = path.join(dashboardDir, `${filename}.html`);
    await fs.writeFile(outputPath, htmlContent);
    return outputPath;
  };
  \<close>
\<close>

definition saveHTMLToFile :: "env \<Rightarrow> world \<Rightarrow> jsstring \<Rightarrow> jsstring \<Rightarrow> (error + jsstring) \<times> world" where
  "saveHTMLToFile e w htmlContent filename =
     (let dashboardDir = dashboardsDir e
      in case fsMkdir e w dashboardDir of
           (Inl err, w1) \<Rightarrow> (Inl err, w1)
         | (Inr _, w1) \<Rightarrow>
             let outputPath = pathJoin e dashboardDir (filename @ ascii ''.html'')
             in case fsWriteFile e w1 outputPath htmlContent of
                  (Inl err, w2) \<Rightarrow> (Inl err, w2)
                | (Inr _, w2) \<Rightarrow> (Inr outputPath, w2))"

definition pdfTableToHTMLDashboard :: "env \<Rightarrow> world \<Rightarrow> jsstring \<Rightarrow> (error + jsstring) \<times> world" where
  "pdfTableToHTMLDashboard e w filePath =
     (case extractTable e w filePath of
        (Inl err, w1) \<Rightarrow> (Inl err, w1)
      | (Inr t, w1) \<Rightarrow>
          let html = generateHTML (numberToString e) (headers t) (values' t)
          in saveHTMLToFile e w1 html (pathBasename e filePath (Some (ascii ''.pdf''))))"

section \<open>The request handlers (server.js)\<close>

text \<open>
  A field of the JSON body is absent or a string. \<open>!x\<close> is true of an absent field and
  of the empty string.
\<close>

datatype jsval = Undefined | JString jsstring

definition falsy :: "jsval \<Rightarrow> bool" where
  "falsy v = (case v of Undefined \<Rightarrow> True | JString s \<Rightarrow> s = [])"

text \<open>A response: the status and the fields of the JSON object sent.\<close>

record response =
  status :: nat
  body :: "(string \<times> jsstring) list"

text \<open>
  \<open>Date.now()\<close> is a number of milliseconds, a natural number; in a template literal it
  is written in decimal.
\<close>

definition digitChar :: "nat \<Rightarrow> jschar" where
  "digitChar d = 0x30 + of_nat d"

fun showNat :: "nat \<Rightarrow> jsstring" where
  "showNat n = (if n < 10 then [digitChar n] else showNat (n div 10) @ [digitChar (n mod 10)])"

declare showNat.simps [simp del]

text \<open>The file name \<^verbatim>\<open>`compare-${Date.now()}.html`\<close> of the comparison handler.\<close>

definition compareFile :: "nat \<Rightarrow> jsstring" where
  "compareFile now = ascii ''compare-'' @ showNat now @ ascii ''.html''"

definition comparePageHead :: jsstring where
  \<open>comparePageHead =
     textLines
      [''<!DOCTYPE html>'',
       ''    <html><head><meta charset="UTF-8"><title>Comparison</title>'',
       ''    <style>body{font-family:Arial,sans-serif;margin:20px;line-height:1.5;}pre{white-space:pre-wrap;}</style>'']
     @ ascii ''    </head><body><h1>Document Comparison</h1><pre>''\<close>

definition comparePageTail :: jsstring where
  \<open>comparePageTail = ascii ''</pre></body></html>''\<close>

text \<open>
  \<open>app.post('/compare-html')\<close>, with the clock read by \<open>Date.now()\<close> as the argument \<open>now\<close>.
  An exception of the write is caught and answered with status 500.
\<close>

definition compareHtml :: "env \<Rightarrow> nat \<Rightarrow> world \<Rightarrow> jsval \<Rightarrow> response \<times> world" where
  "compareHtml e now w prompt =
     (if falsy prompt
      then (\<lparr>status = 400, body = [(''error'', ascii ''Missing prompt'')]\<rparr>, w)
      else
        let html = comparePageHead
                   @ escapeHtml (case prompt of JString s \<Rightarrow> s | Undefined \<Rightarrow> [])
                   @ comparePageTail;
            filename = compareFile now;
            outPath = pathJoin e (dashboardsDir e) filename
        in case fsWriteFile e w outPath html of
             (Inl (Error m), w') \<Rightarrow>
               (\<lparr>status = 500,
                 body = [(''error'', ascii ''Failed to generate comparison HTML''),
                         (''details'', m)]\<rparr>, w')
           | (Inr _, w') \<Rightarrow>
               (\<lparr>status = 200,
                 body = [(''comparisonUrl'', ascii ''/dashboards/'' @ filename)]\<rparr>, w'))"

text \<open>\<open>app.post('/dashboard')\<close>.\<close>

definition dashboard :: "env \<Rightarrow> world \<Rightarrow> jsval \<Rightarrow> response \<times> world" where
  "dashboard e w savedname =
     (if falsy savedname
      then (\<lparr>status = 400, body = [(''error'', ascii ''Missing savedname'')]\<rparr>, w)
      else
        let pdfPath = pathJoin e (uploadsDir e)
                        (case savedname of JString s \<Rightarrow> s | Undefined \<Rightarrow> [])
        in case pdfTableToHTMLDashboard e w pdfPath of
             (Inl (Error m), w') \<Rightarrow>
               (\<lparr>status = 500,
                 body = [(''error'', ascii ''Failed to generate dashboard''),
                         (''details'', m)]\<rparr>, w')
           | (Inr htmlPath, w') \<Rightarrow>
               (\<lparr>status = 200,
                 body = [(''dashboardUrl'',
                          ascii ''/dashboards/'' @ pathBasename e htmlPath None)]\<rparr>, w'))"

section \<open>The notions of the specification\<close>

text \<open>A blank line: nothing but white space.\<close>

definition blank :: "jsstring \<Rightarrow> bool" where
  "blank line \<longleftrightarrow> list_all isSpace line"

text \<open>
  A run of two or more consecutive space characters (U+0020), and a run of two or more
  consecutive white-space characters of any kind.
\<close>

fun hasSpaceRun :: "jsstring \<Rightarrow> bool" where
  "hasSpaceRun (a # b # cs) = ((a = SP \<and> b = SP) \<or> hasSpaceRun (b # cs))"
| "hasSpaceRun [a] = False"
| "hasSpaceRun [] = False"

fun hasWhitespaceRun :: "jsstring \<Rightarrow> bool" where
  "hasWhitespaceRun (a # b # cs) = ((isSpace a \<and> isSpace b) \<or> hasWhitespaceRun (b # cs))"
| "hasWhitespaceRun [a] = False"
| "hasWhitespaceRun [] = False"

text \<open>
  A qualifying line in the words of the specification: non-blank, with a tab or a run of
  two or more spaces. The second definition reads the run as one of white-space
  characters.
\<close>

definition qualifyingAsStated :: "jsstring \<Rightarrow> bool" where
  "qualifyingAsStated line \<longleftrightarrow> \<not> blank line \<and> (TAB \<in> set line \<or> hasSpaceRun line)"

definition qualifying :: "jsstring \<Rightarrow> bool" where
  "qualifying line \<longleftrightarrow> \<not> blank line \<and> (TAB \<in> set line \<or> hasWhitespaceRun line)"

definition qualifyingLines :: "jsstring \<Rightarrow> jsstring list" where
  "qualifyingLines text = filter qualifying (splitLines text)"

text \<open>
  The candidate data rows (every qualifying line after the first, split into cells) whose
  cell count is that of the header row.
\<close>

definition matchingRows :: "jsstring \<Rightarrow> jsstring list list" where
  "matchingRows text =
     filter (\<lambda>row. length row = length (splitCells (hd (qualifyingLines text))))
       (map splitCells (tl (qualifyingLines text)))"

text \<open>
  The strict numeric grammar of the specification: an optional leading sign, then digits
  with at most one decimal point and nothing else, and at least one digit.
\<close>

definition strictNumeric :: "jsstring \<Rightarrow> bool" where
  "strictNumeric s \<longleftrightarrow>
     (let digits = (case s of [] \<Rightarrow> [] | c # cs \<Rightarrow> if c = PLUS \<or> c = MINUS then cs else s)
      in list_all (\<lambda>c. isDigit c \<or> c = DOT) digits \<and>
         length (filter (\<lambda>c. c = DOT) digits) \<le> 1 \<and>
         list_ex isDigit digits)"

text \<open>
  The number a text of the strict grammar denotes: the digits before the decimal point
  as an integer plus the digits after it as a fraction, rounded to a double, and negated
  when the text begins with a minus sign.
\<close>

definition decimalValue :: "jsstring \<Rightarrow> rat" where
  "decimalValue ds =
     of_nat (digitsValue 10 (takeWhile (\<lambda>c. c \<noteq> DOT) ds))
     + of_nat (digitsValue 10 (drop 1 (dropWhile (\<lambda>c. c \<noteq> DOT) ds)))
       / 10 ^ length (drop 1 (dropWhile (\<lambda>c. c \<noteq> DOT) ds))"

definition strictValue :: "jsstring \<Rightarrow> jsnum" where
  "strictValue s =
     (case s of
        [] \<Rightarrow> NaN
      | c # cs \<Rightarrow>
          if c = PLUS then roundToDouble (decimalValue cs)
          else if c = MINUS then negate (roundToDouble (decimalValue cs))
          else roundToDouble (decimalValue s))"

text \<open>
  The invariant of the scan of \<open>splitSep\<close> on a trimmed line: the piece collected so far
  is empty or has a character that is not white space, or the next character is not
  white space; and the text still to scan does not end in white space.
\<close>

definition pieceInv :: "jsstring \<Rightarrow> jsstring \<Rightarrow> bool" where
  "pieceInv cur s \<longleftrightarrow>
     (cur = [] \<or> (\<exists>x \<in> set cur. \<not> isSpace x) \<or> (s \<noteq> [] \<and> \<not> isSpace (hd s))) \<and>
     (s \<noteq> [] \<longrightarrow> \<not> isSpace (last s))"

section \<open>An environment and inputs for the worked scenarios\<close>

abbreviation SLASH :: jschar where "SLASH \<equiv> 0x2F"

text \<open>
  \<open>Number::toString\<close> on the numbers of the scenarios: an integer of magnitude below
  \<open>10^21\<close> is written in decimal, with a minus sign when it is negative. (Other finite
  numbers are written by JavaScript as the shortest decimal that reads back as the same
  double; the scenarios contain none, and they are cut to their integer part here.)
\<close>

definition exampleNumberToString :: "jsnum \<Rightarrow> jsstring" where
  "exampleNumberToString n =
     (case n of
        NaN \<Rightarrow> ascii ''NaN''
      | PosInfinity \<Rightarrow> ascii ''Infinity''
      | NegInfinity \<Rightarrow> ascii ''-Infinity''
      | NegZero \<Rightarrow> ascii ''0''
      | Finite r \<Rightarrow> (if r < 0 then [MINUS] else []) @ showNat (nat \<lfloor>\<bar>r\<bar>\<rfloor>))"

text \<open>
  \<open>path.join\<close> of a normalised directory and a file name, and \<open>path.basename\<close> of a path
  that does not end in a slash, as on POSIX.
\<close>

definition posixJoin :: "jsstring \<Rightarrow> jsstring \<Rightarrow> jsstring" where
  "posixJoin dir name = dir @ [SLASH] @ name"

definition posixBasename :: "jsstring \<Rightarrow> jsstring option \<Rightarrow> jsstring" where
  "posixBasename p ext =
     (let b = rev (takeWhile (\<lambda>c. c \<noteq> SLASH) (rev p))
      in case ext of
           None \<Rightarrow> b
         | Some x \<Rightarrow>
             if length x < length b \<and> drop (length b - length x) b = x
             then take (length b - length x) b else b)"

text \<open>
  A PDF whose text is
  \<^verbatim>\<open>"<script>alert(1)</script>\tB\n<b>x</b>\t2"\<close>, stored as \<open>report.pdf\<close> in the upload
  directory of a file system that refuses nothing.
\<close>

definition xssText :: jsstring where
  "xssText = ascii ''<script>alert(1)</script>'' @ [TAB] @ ascii ''B'' @ [NL]
             @ ascii ''<b>x</b>'' @ [TAB] @ ascii ''2''"

definition exampleEnv :: env where
  "exampleEnv =
     \<lparr>uploadsDir = ascii ''/srv/backend/uploads'',
      dashboardsDir = ascii ''/srv/dashboards'',
      pathJoin = posixJoin,
      pathBasename = posixBasename,
      readPdf = (\<lambda>p. if p = ascii ''/srv/backend/uploads/report.pdf'' then Inr xssText
                     else Inl (Error (ascii ''ENOENT: no such file or directory''))),
      mkdirError = (\<lambda>d. None),
      writeError = (\<lambda>p. None),
      numberToString = exampleNumberToString\<rparr>"

definition emptyWorld :: world where
  "emptyWorld = \<lparr>files = (\<lambda>p. None), effects = []\<rparr>"

text \<open>The text \<^verbatim>\<open>"Name\tScore\nAlice\t90\nBob\t85\nnot a table line"\<close>.\<close>

definition scenario1 :: jsstring where
  "scenario1 =
     ascii ''Name'' @ [TAB] @ ascii ''Score'' @ [NL] @ ascii ''Alice'' @ [TAB] @ ascii ''90'' @ [NL]
     @ ascii ''Bob'' @ [TAB] @ ascii ''85'' @ [NL] @ ascii ''not a table line''"

text \<open>The text \<^verbatim>\<open>"A  B\n1  2\n3  4  5"\<close>.\<close>

definition scenario3 :: jsstring where
  "scenario3 = ascii ''A  B'' @ [NL] @ ascii ''1  2'' @ [NL] @ ascii ''3  4  5''"

text \<open>
  Two lines with single spaces only, each ending in a space before the line break
  \<open>CR LF\<close>: \<^verbatim>\<open>"Name Score \r\nAlice 90 \r\n"\<close>.
\<close>

definition crlfText :: jsstring where
  "crlfText = ascii ''Name Score '' @ [CR, NL] @ ascii ''Alice 90 '' @ [CR, NL]"

text \<open>A text with one tabular line, and a text whose only data row has three cells.\<close>

definition oneLineText :: jsstring where
  "oneLineText = ascii ''A  B'' @ [NL] @ ascii ''plain prose''"

definition noRowText :: jsstring where
  "noRowText = ascii ''A  B'' @ [NL] @ ascii ''1  2  3''"

text \<open>The text of a 1 followed by 309 zeros, the decimal numeral of \<open>10^309\<close>.\<close>

definition bigText :: jsstring where
  "bigText = ascii ''1'' @ replicate 309 0x30"

text \<open>
  Two comparison requests answered in the same millisecond, a third one a millisecond
  later, and two publications of a table dashboard under the same name.
\<close>

definition firstCompare :: "response \<times> world" where
  "firstCompare = compareHtml exampleEnv 1000 emptyWorld (JString (ascii ''first''))"

definition secondCompare :: "response \<times> world" where
  "secondCompare = compareHtml exampleEnv 1000 (snd firstCompare) (JString (ascii ''second''))"

definition laterCompare :: "response \<times> world" where
  "laterCompare = compareHtml exampleEnv 1001 (snd firstCompare) (JString (ascii ''second''))"

definition firstSave :: "(error + jsstring) \<times> world" where
  "firstSave = saveHTMLToFile exampleEnv emptyWorld (ascii ''<p>one</p>'') (ascii ''report'')"

definition secondSave :: "(error + jsstring) \<times> world" where
  "secondSave = saveHTMLToFile exampleEnv (snd firstSave) (ascii ''<p>two</p>'') (ascii ''report'')"

section \<open>Properties of the escaper\<close>

lemma replaceAll_append:
  "replaceAll c r (xs @ ys) = replaceAll c r xs @ replaceAll c r ys"
  by (simp add: replaceAll_def)

lemma replaceAll_Nil: "replaceAll c r [] = []"
  by (simp add: replaceAll_def)

lemma replaceAll_Cons:
  "replaceAll c r (x # xs) = (if x = c then r else [x]) @ replaceAll c r xs"
  by (simp add: replaceAll_def)

lemma escapeHtml_Nil: "escapeHtml [] = []"
  by (simp add: escapeHtml_def replaceAll_Nil)

lemma escapeHtml_Cons: "escapeHtml (c # cs) = escapeChar c @ escapeHtml cs"
  by (simp add: escapeHtml_def escapeChar_def replaceAll_Cons replaceAll_append
      replaceAll_Nil ascii_def)

lemma escapeHtml_single_pass: "escapeHtml s = concat (map escapeChar s)"
  by (induction s) (simp_all add: escapeHtml_Nil escapeHtml_Cons)

lemma escapeChar_amp_position:
  "i < length (escapeChar c) \<Longrightarrow> escapeChar c ! i = AMP \<Longrightarrow>
   i = 0 \<and> escapeChar c \<in> set entities"
  by (auto simp: escapeChar_def entities_def ascii_def nth_Cons' split: if_splits)

lemma escapeChar_no_special:
  "LT \<notin> set (escapeChar c)" "GT \<notin> set (escapeChar c)"
  "QUOT \<notin> set (escapeChar c)" "APOS \<notin> set (escapeChar c)"
  by (simp_all add: escapeChar_def ascii_def)

lemma escapeHtml_no_special:
  "LT \<notin> set (escapeHtml s)" "GT \<notin> set (escapeHtml s)"
  "QUOT \<notin> set (escapeHtml s)" "APOS \<notin> set (escapeHtml s)"
  by (simp_all add: escapeHtml_single_pass escapeChar_no_special)

lemma escapeHtml_amp_entity:
  "i < length (escapeHtml s) \<Longrightarrow> escapeHtml s ! i = AMP \<Longrightarrow>
   \<exists>e \<in> set entities. take (length e) (drop i (escapeHtml s)) = e"
proof (induction s arbitrary: i)
  case Nil
  then show ?case by (simp add: escapeHtml_Nil)
next
  case (Cons c cs)
  let ?E = "escapeChar c" and ?R = "escapeHtml cs"
  show ?case
  proof (cases "i < length ?E")
    case True
    with Cons.prems have "?E ! i = AMP"
      by (simp add: escapeHtml_Cons nth_append)
    with True have "i = 0" and "?E \<in> set entities"
      using escapeChar_amp_position by blast+
    then show ?thesis
      by (auto simp: escapeHtml_Cons intro!: bexI [of _ ?E])
  next
    case False
    with Cons.prems have "i - length ?E < length ?R" and "?R ! (i - length ?E) = AMP"
      by (simp_all add: escapeHtml_Cons nth_append)
    from Cons.IH [OF this] obtain e where "e \<in> set entities"
      and "take (length e) (drop (i - length ?E) ?R) = e" by blast
    with False show ?thesis
      by (auto simp: escapeHtml_Cons intro!: bexI [of _ e])
  qed
qed

text \<open>
  The first character of an escaped character tells which one it was: an ampersand of
  the output is never a character of the input, because the first pass replaced those.
\<close>

lemma escapeChar_inj_append:
  "escapeChar a @ xs = escapeChar b @ ys \<Longrightarrow> a = b \<and> xs = ys"
  by (auto simp: escapeChar_def ascii_def split: if_splits)

lemma escapeChar_not_Nil: "escapeChar c \<noteq> []"
  by (simp add: escapeChar_def ascii_def)

lemma escapeHtml_eq_imp_eq: "escapeHtml s = escapeHtml t \<Longrightarrow> s = t"
proof (induction s arbitrary: t)
  case Nil
  then show ?case
    by (cases t) (simp_all add: escapeHtml_Nil escapeHtml_Cons escapeChar_not_Nil)
next
  case (Cons a s)
  show ?case
  proof (cases t)
    case Nil
    with Cons.prems show ?thesis
      by (simp add: escapeHtml_Nil escapeHtml_Cons escapeChar_not_Nil)
  next
    case (Cons b t')
    with Cons.prems have "escapeChar a @ escapeHtml s = escapeChar b @ escapeHtml t'"
      by (simp add: escapeHtml_Cons)
    then have "a = b" and "escapeHtml s = escapeHtml t'"
      using escapeChar_inj_append by blast+
    with Cons.IH Cons show ?thesis by simp
  qed
qed

text \<open>
  C10. For every string, the output of \<open>escapeHtml\<close> holds none of the characters
  \<open><\<close>, \<open>>\<close>, \<open>"\<close>, \<open>'\<close>; every \<open>&\<close> in it is the start of one of the five entities
  \<open>&amp;\<close>, \<open>&lt;\<close>, \<open>&gt;\<close>, \<open>&quot;\<close>, \<open>&#39;\<close>; and the function is injective.
\<close>

theorem escapeHtml_safe_and_injective:
  "LT \<notin> set (escapeHtml s) \<and> GT \<notin> set (escapeHtml s) \<and>
   QUOT \<notin> set (escapeHtml s) \<and> APOS \<notin> set (escapeHtml s) \<and>
   (\<forall>i < length (escapeHtml s). escapeHtml s ! i = AMP \<longrightarrow>
      (\<exists>e \<in> set entities. take (length e) (drop i (escapeHtml s)) = e)) \<and>
   inj escapeHtml"
  using escapeHtml_no_special [of s] escapeHtml_amp_entity [of _ s]
  by (auto intro!: injI escapeHtml_eq_imp_eq)

text \<open>
  The string \<open><&\<close> becomes \<open>&lt;&amp;\<close>: the ampersand at index 4 starts an entity, and
  no \<open><\<close> is left.
\<close>

theorem escapeHtml_safe_and_injective_witness:
  "4 < length (escapeHtml (ascii ''<&'')) \<and> escapeHtml (ascii ''<&'') ! 4 = AMP \<and>
   (\<exists>e \<in> set entities. take (length e) (drop 4 (escapeHtml (ascii ''<&''))) = e) \<and>
   LT \<notin> set (escapeHtml (ascii ''<&''))"
proof -
  have len: "4 < length (escapeHtml (ascii ''<&''))"
    and amp: "escapeHtml (ascii ''<&'') ! 4 = AMP"
    by (simp_all add: escapeHtml_Cons escapeHtml_Nil escapeChar_def ascii_def)
  with escapeHtml_safe_and_injective [of "ascii ''<&''"] show ?thesis
    by blast
qed

section \<open>White space and separators\<close>

lemma trim_Nil: "trim [] = []" by (simp add: trim_def)

lemma trim_eq_Nil_iff: "trim s = [] \<longleftrightarrow> (\<forall>c \<in> set s. isSpace c)"
proof
  assume "trim s = []"
  then have "dropWhile isSpace (rev (dropWhile isSpace s)) = []" by (simp add: trim_def)
  then have "\<forall>c \<in> set (dropWhile isSpace s). isSpace c"
    by (simp add: dropWhile_eq_Nil_conv)
  then have "dropWhile isSpace s = []"
    by (metis hd_dropWhile list.set_sel(1))
  then show "\<forall>c \<in> set s. isSpace c" by (simp add: dropWhile_eq_Nil_conv)
next
  assume "\<forall>c \<in> set s. isSpace c"
  then show "trim s = []"
    by (auto simp: trim_def dropWhile_eq_Nil_conv dest: set_dropWhileD)
qed

lemma trim_last: "trim s \<noteq> [] \<Longrightarrow> \<not> isSpace (last (trim s))"
proof -
  assume a: "trim s \<noteq> []"
  let ?d = "dropWhile isSpace (rev (dropWhile isSpace s))"
  from a have "?d \<noteq> []" by (simp add: trim_def)
  then have "\<not> isSpace (hd ?d)" by (rule hd_dropWhile)
  moreover have "last (trim s) = hd ?d" using \<open>?d \<noteq> []\<close> by (simp add: trim_def last_rev)
  ultimately show ?thesis by simp
qed

lemma sepLen_pos_iff:
  "0 < sepLen (c # cs) \<longleftrightarrow> c = TAB \<or> (isSpace c \<and> cs \<noteq> [] \<and> isSpace (hd cs))"
  by (cases cs) (auto simp: sepLen_def)

lemma sepLen_nonspace: "\<not> isSpace c \<Longrightarrow> sepLen (c # cs) = 0"
  using sepLen_pos_iff [of c cs] by (auto simp: isSpace_def)

lemma splitSep_pieces:
  "pieceInv cur s \<Longrightarrow> p \<in> set (splitSep cur s) \<Longrightarrow> p \<noteq> [] \<Longrightarrow> \<exists>x \<in> set p. \<not> isSpace x"
proof (induction cur s rule: splitSep.induct)
  case (1 cur)
  then show ?case by (auto simp: pieceInv_def)
next
  case (2 cur c cs)
  show ?case
  proof (cases "0 < sepLen (c # cs)")
    case True
    have isp: "isSpace c" using True sepLen_nonspace [of c cs] by auto
    let ?rest = "drop (sepLen (c # cs)) (c # cs)"
    have inv': "pieceInv [] ?rest"
      using "2.prems"(1) by (auto simp: pieceInv_def)
    from "2.prems"(2) True have "p = cur \<or> p \<in> set (splitSep [] ?rest)" by simp
    then show ?thesis
    proof
      assume "p = cur"
      with "2.prems" isp show ?thesis by (auto simp: pieceInv_def)
    next
      assume "p \<in> set (splitSep [] ?rest)"
      from "2.IH"(1) [OF True inv' this "2.prems"(3)] show ?thesis .
    qed
  next
    case False
    have inv': "pieceInv (cur @ [c]) cs"
    proof (cases "isSpace c")
      case True
      with False have "c \<noteq> TAB" "cs = [] \<or> \<not> isSpace (hd cs)"
        using sepLen_pos_iff [of c cs] by auto
      with "2.prems"(1) True show ?thesis
        by (cases cs) (auto simp: pieceInv_def)
    next
      case False
      with "2.prems"(1) show ?thesis by (cases cs) (auto simp: pieceInv_def)
    qed
    from "2.prems"(2) False have "p \<in> set (splitSep (cur @ [c]) cs)" by simp
    from "2.IH"(2) [OF False inv' this "2.prems"(3)] show ?thesis .
  qed
qed

lemma splitCells_nonempty_pieces:
  "splitCells line = filter (\<lambda>cell. cell \<noteq> []) (splitSep [] (trim line))"
proof -
  have inv: "pieceInv [] (trim line)"
    using trim_last [of line] by (auto simp: pieceInv_def)
  have "\<And>p. p \<in> set (splitSep [] (trim line)) \<Longrightarrow> (trim p \<noteq> []) = (p \<noteq> [])"
    using splitSep_pieces [OF inv] by (auto simp: trim_eq_Nil_iff)
  then show ?thesis
    unfolding splitCells_def by (intro filter_cong) auto
qed

text \<open>
  C9. When a line is split into cells, every empty cell is dropped, wherever it stands:
  no line has an empty cell, and the cells are exactly the non-empty pieces of the split
  in their order. The line \<^verbatim>\<open>"a\t\tb"\<close> splits into \<open>a\<close>, the empty piece between the two tabs
  and \<open>b\<close>; its cells are \<open>a\<close> and \<open>b\<close>.
\<close>

theorem splitCells_drops_every_empty_cell:
  "[] \<notin> set (splitCells line) \<and>
   splitCells line = filter (\<lambda>cell. cell \<noteq> []) (splitSep [] (trim line)) \<and>
   splitSep [] (ascii ''a'' @ [TAB, TAB] @ ascii ''b'') = [ascii ''a'', [], ascii ''b''] \<and>
   splitCells (ascii ''a'' @ [TAB, TAB] @ ascii ''b'') = [ascii ''a'', ascii ''b'']"
proof -
  have "[] \<notin> set (splitCells line)" by (simp add: splitCells_def trim_Nil)
  moreover have "splitSep [] (ascii ''a'' @ [TAB, TAB] @ ascii ''b'') = [ascii ''a'', [], ascii ''b'']"
    by code_simp
  moreover have "splitCells (ascii ''a'' @ [TAB, TAB] @ ascii ''b'') = [ascii ''a'', ascii ''b'']"
    by code_simp
  ultimately show ?thesis using splitCells_nonempty_pieces by blast
qed

section \<open>Properties of the table parser\<close>

text \<open>
  C5. On the text \<^verbatim>\<open>"Name\tScore\nAlice\t90\nBob\t85\nnot a table line"\<close> the parser returns
  the headers \<open>Name\<close>, \<open>Score\<close> and the rows \<open>Alice\<close>, 90 and \<open>Bob\<close>, 85. The text has four
  lines; the fourth, \<open>not a table line\<close>, has no tab and no two adjacent white-space
  characters, and only the first three are kept.
\<close>

theorem parseTable_scenario1:
  "parseTable scenario1 =
     Inr \<lparr>headers = [ascii ''Name'', ascii ''Score''],
          values' = [[Str (ascii ''Alice''), Num (Finite 90)],
                     [Str (ascii ''Bob''), Num (Finite 85)]]\<rparr>
   \<and> splitLines scenario1 =
       [ascii ''Name'' @ [TAB] @ ascii ''Score'', ascii ''Alice'' @ [TAB] @ ascii ''90'',
        ascii ''Bob'' @ [TAB] @ ascii ''85'', ascii ''not a table line'']
   \<and> \<not> hasSep (ascii ''not a table line'')
   \<and> tableLines scenario1 =
       [ascii ''Name'' @ [TAB] @ ascii ''Score'', ascii ''Alice'' @ [TAB] @ ascii ''90'',
        ascii ''Bob'' @ [TAB] @ ascii ''85'']"
  by code_simp

lemma hasSep_iff: "hasSep line \<longleftrightarrow> TAB \<in> set line \<or> hasWhitespaceRun line"
proof (induction line rule: hasWhitespaceRun.induct)
  case (1 a b cs)
  have "isSpace TAB" by (simp add: isSpace_def)
  with 1 show ?case by (auto simp: sepLen_pos_iff)
next
  case (2 a)
  show ?case by (auto simp: sepLen_pos_iff)
next
  case 3
  show ?case by simp
qed

lemma qualifying_iff: "qualifying line \<longleftrightarrow> 0 < length (trim line) \<and> hasSep line"
  by (auto simp: qualifying_def blank_def hasSep_iff trim_eq_Nil_iff list_all_iff)

lemma tableLines_qualifying: "tableLines text = qualifyingLines text"
  by (simp add: tableLines_def qualifyingLines_def qualifying_iff [abs_def])

lemma parseTable_cases:
  "parseTable text =
     (if length (qualifyingLines text) < 2 then Inl noTableLikeData
      else if matchingRows text = [] then Inl noValidDataRows
      else Inr \<lparr>headers = map trim (splitCells (hd (qualifyingLines text))),
                values' = map (map coerce) (matchingRows text)\<rparr>)"
  by (cases "qualifyingLines text")
     (simp_all add: parseTable_def tableLines_qualifying matchingRows_def Let_def)

lemma errors_distinct: "noTableLikeData \<noteq> noValidDataRows"
  by (simp add: noTableLikeData_def noValidDataRows_def ascii_def)

text \<open>
  C2, as amended. A line qualifies when it is not blank and has a tab or a run of two
  or more consecutive white-space characters (any characters of the class \<open>\s\<close>, not
  only spaces). The parser fails exactly when fewer than two lines qualify or no candidate
  row has the cell count of the header row; the first case gives the error for missing
  table-like data, the second the distinct error whose message says "no valid data
  rows"; in every other case it returns the table of the header row and the matching rows.
\<close>

theorem parseTable_fails_exactly:
  "((\<exists>e. parseTable text = Inl e) \<longleftrightarrow>
      length (qualifyingLines text) < 2 \<or> matchingRows text = []) \<and>
   (length (qualifyingLines text) < 2 \<longrightarrow> parseTable text = Inl noTableLikeData) \<and>
   (2 \<le> length (qualifyingLines text) \<and> matchingRows text = [] \<longrightarrow>
      parseTable text = Inl noValidDataRows) \<and>
   (2 \<le> length (qualifyingLines text) \<and> matchingRows text \<noteq> [] \<longrightarrow>
      parseTable text =
        Inr \<lparr>headers = map trim (splitCells (hd (qualifyingLines text))),
             values' = map (map coerce) (matchingRows text)\<rparr>) \<and>
   noTableLikeData \<noteq> noValidDataRows \<and>
   noValidDataRows =
     Error (ascii ''Table headers found, but '' @ ascii ''no valid data rows''
            @ ascii '' match the header count.'')"
  using errors_distinct
  by (auto simp: parseTable_cases [of "text"] noValidDataRows_def ascii_def)

text \<open>
  One text for each case: one qualifying line, two qualifying lines with no matching
  row, and the text \<^verbatim>\<open>"A  B\n1  2\n3  4  5"\<close> with one matching row.
\<close>

theorem parseTable_fails_exactly_witness:
  "length (qualifyingLines oneLineText) < 2 \<and> parseTable oneLineText = Inl noTableLikeData \<and>
   2 \<le> length (qualifyingLines noRowText) \<and> matchingRows noRowText = [] \<and>
   parseTable noRowText = Inl noValidDataRows \<and>
   2 \<le> length (qualifyingLines scenario3) \<and> matchingRows scenario3 \<noteq> [] \<and>
   parseTable scenario3 =
     Inr \<lparr>headers = [ascii ''A'', ascii ''B''], values' = [[Num (Finite 1), Num (Finite 2)]]\<rparr>"
proof -
  have a: "length (qualifyingLines oneLineText) < 2" by code_simp
  have b: "2 \<le> length (qualifyingLines noRowText)" and c: "matchingRows noRowText = []"
    by code_simp+
  have d: "2 \<le> length (qualifyingLines scenario3)"
    and e: "matchingRows scenario3 = [[ascii ''1'', ascii ''2'']]"
    and f: "map trim (splitCells (hd (qualifyingLines scenario3))) = [ascii ''A'', ascii ''B'']"
    and g: "map (map coerce) [[ascii ''1'', ascii ''2'']] = [[Num (Finite 1), Num (Finite 2)]]"
    by code_simp+
  show ?thesis
    using parseTable_fails_exactly [of oneLineText] parseTable_fails_exactly [of noRowText]
      parseTable_fails_exactly [of scenario3] a b c d e f g
    by simp
qed

text \<open>
  C2 as stated fails on \<^verbatim>\<open>"Name Score \r\nAlice 90 \r\n"\<close>: no line has a tab or two
  consecutive spaces, so fewer than two lines qualify in the words of the claim, yet the
  parser returns a table, because a space followed by a carriage return is a run of two
  white-space characters.
\<close>

theorem parseTable_crlf_counterexample:
  "length (filter qualifyingAsStated (splitLines crlfText)) < 2 \<and>
   parseTable crlfText =
     Inr \<lparr>headers = [ascii ''Name Score''], values' = [[Str (ascii ''Alice 90'')]]\<rparr>"
  by code_simp

text \<open>
  C3. Whenever the parser returns a table, every row has exactly as many cells as there
  are headers, and the rows are the candidate rows of that cell count, cell by cell:
  a row of another length is dropped, none is cut or filled up.
\<close>

theorem parseTable_rows_match_headers:
  "parseTable text = Inr t \<Longrightarrow>
   (\<forall>row \<in> set (values' t). length row = length (headers t)) \<and>
   values' t =
     map (map coerce)
       (filter (\<lambda>row. length row = length (headers t)) (tl (map splitCells (tableLines text))))"
  by (auto simp: parseTable_def Let_def split: if_splits)

text \<open>
  On \<^verbatim>\<open>"A  B\n1  2\n3  4  5"\<close> the row of three cells is dropped and the row of two is kept.
\<close>

theorem parseTable_rows_match_headers_witness:
  "parseTable scenario3 =
     Inr \<lparr>headers = [ascii ''A'', ascii ''B''], values' = [[Num (Finite 1), Num (Finite 2)]]\<rparr> \<and>
   map length [[Num (Finite 1), Num (Finite 2)]] = [length [ascii ''A'', ascii ''B'']] \<and>
   map splitCells (tableLines scenario3)
     = [[ascii ''A'', ascii ''B''], [ascii ''1'', ascii ''2''], [ascii ''3'', ascii ''4'', ascii ''5'']]"
proof -
  have p: "parseTable scenario3 =
     Inr \<lparr>headers = [ascii ''A'', ascii ''B''], values' = [[Num (Finite 1), Num (Finite 2)]]\<rparr>"
    by code_simp
  have q: "map splitCells (tableLines scenario3)
     = [[ascii ''A'', ascii ''B''], [ascii ''1'', ascii ''2''], [ascii ''3'', ascii ''4'', ascii ''5'']]"
    by code_simp
  from parseTable_rows_match_headers [OF p] p q show ?thesis by simp
qed

section \<open>Numeric coercion\<close>

lemma trim_id:
  assumes "s \<noteq> []" "\<not> isSpace (hd s)" "\<not> isSpace (last s)"
  shows "trim s = s"
proof -
  from assms have 1: "dropWhile isSpace s = s" by (cases s) simp_all
  from assms have "rev s \<noteq> []" "\<not> isSpace (hd (rev s))" by (simp_all add: hd_rev)
  then have "dropWhile isSpace (rev s) = rev s" by (cases "rev s") simp_all
  with 1 show ?thesis by (simp add: trim_def)
qed

lemma digit_range_not_space: "(c::jschar) \<le> 0x39 \<Longrightarrow> 0x2000 \<le> c \<Longrightarrow> False"
  by (simp add: word_le_nat_alt)

lemma digit_not_space: "isDigit c \<Longrightarrow> \<not> isSpace c"
  unfolding isDigit_def isSpace_def using digit_range_not_space [of c] by auto

lemma digit_or_dot_not_space: "isDigit c \<or> c = DOT \<Longrightarrow> \<not> isSpace c"
  using digit_not_space [of c] by (auto simp: isSpace_def)

lemma not_isDigit_DOT: "\<not> isDigit DOT"
  by (simp add: isDigit_def)

lemma digits_not_Infinity:
  "list_all (\<lambda>c. isDigit c \<or> c = DOT) b \<Longrightarrow> b \<noteq> ascii ''Infinity''"
  by (auto simp: ascii_def isDigit_def)

lemma exponentPart_Nil: "exponentPart [] = Some 0"
  by (simp add: exponentPart_def)

text \<open>Rounding gives a number, and negating a number gives a number.\<close>

lemma roundToDouble_not_NaN: "roundToDouble q \<noteq> NaN"
  by (simp add: roundToDouble_def roundWithExponent_def fromMantissa_def)

lemma negate_not_NaN: "x \<noteq> NaN \<Longrightarrow> negate x \<noteq> NaN"
  by (cases x) (simp_all add: negate_def)

lemma digits_no_DOT: "\<forall>x \<in> set ds. isDigit x \<Longrightarrow> DOT \<notin> set ds"
  using not_isDigit_DOT by blast

lemma unsigned_digits:
  assumes "b \<noteq> []" "\<forall>x \<in> set b. isDigit x"
  shows "strUnsignedDecimalLiteral b = roundToDouble (decimalValue b)"
proof -
  have ni: "b \<noteq> ascii ''Infinity''"
    using assms(2) digits_not_Infinity [of b] by (simp add: list_all_iff)
  have tw: "takeWhile isDigit b = b" and dw: "dropWhile isDigit b = []"
    using assms(2) by simp_all
  have nd: "\<forall>x \<in> set b. x \<noteq> DOT" using digits_no_DOT [OF assms(2)] by blast
  then have tw': "takeWhile (\<lambda>c. c \<noteq> DOT) b = b" and dw': "dropWhile (\<lambda>c. c \<noteq> DOT) b = []"
    by simp_all
  have "strUnsignedDecimalLiteral b = roundToDouble (of_nat (digitsValue 10 b))"
    using assms(1) ni
    by (simp add: strUnsignedDecimalLiteral_def Let_def exponentPart_Nil tw dw scale10_def
        digitsValue_def)
  moreover have "decimalValue b = of_nat (digitsValue 10 b)"
    by (simp add: decimalValue_def tw' dw' digitsValue_def)
  ultimately show ?thesis by simp
qed

lemma unsigned_fraction:
  assumes ip: "\<forall>x \<in> set ip. isDigit x" and fp: "\<forall>x \<in> set fp. isDigit x"
    and ne: "ip \<noteq> [] \<or> fp \<noteq> []"
  shows "strUnsignedDecimalLiteral (ip @ DOT # fp) = roundToDouble (decimalValue (ip @ DOT # fp))"
proof -
  let ?b = "ip @ DOT # fp"
  have "list_all (\<lambda>c. isDigit c \<or> c = DOT) ?b" using ip fp by (auto simp: list_all_iff)
  then have ninf: "?b \<noteq> ascii ''Infinity''" by (rule digits_not_Infinity)
  have tw: "takeWhile isDigit ?b = ip" and dw: "dropWhile isDigit ?b = DOT # fp"
    using ip not_isDigit_DOT by simp_all
  have tw2: "takeWhile isDigit fp = fp" and dw2: "dropWhile isDigit fp = []"
    using fp by simp_all
  have nd: "\<forall>x \<in> set ip. x \<noteq> DOT" using digits_no_DOT [OF ip] by blast
  then have tw': "takeWhile (\<lambda>c. c \<noteq> DOT) ?b = ip"
    and dw': "dropWhile (\<lambda>c. c \<noteq> DOT) ?b = DOT # fp"
    by simp_all
  have "strUnsignedDecimalLiteral ?b
      = roundToDouble (of_nat (digitsValue 10 ip) + of_nat (digitsValue 10 fp) / 10 ^ length fp)"
    using ne ninf
    by (auto simp add: strUnsignedDecimalLiteral_def Let_def exponentPart_Nil tw dw tw2 dw2
        scale10_def simp del: append_eq_conv_conj)
  moreover have "decimalValue ?b
      = of_nat (digitsValue 10 ip) + of_nat (digitsValue 10 fp) / 10 ^ length fp"
    unfolding decimalValue_def tw' dw' by simp
  ultimately show ?thesis by simp
qed

lemma strict_shape:
  assumes chars: "list_all (\<lambda>c. isDigit c \<or> c = DOT) b"
    and dots: "length (filter (\<lambda>c. c = DOT) b) \<le> 1"
  shows "(\<forall>x \<in> set b. isDigit x) \<or>
         (\<exists>ip fp. b = ip @ DOT # fp \<and> (\<forall>x \<in> set ip. isDigit x) \<and> (\<forall>x \<in> set fp. isDigit x))"
proof (cases "DOT \<in> set b")
  case False
  with chars show ?thesis by (auto simp: list_all_iff)
next
  case True
  then obtain ip fp where b: "b = ip @ DOT # fp" and ipn: "DOT \<notin> set ip"
    by (meson split_list_first)
  from dots b have "length (filter (\<lambda>c. c = DOT) ip) + 1 + length (filter (\<lambda>c. c = DOT) fp) \<le> 1"
    by simp
  then have "filter (\<lambda>c. c = DOT) fp = []" by simp
  then have fpn: "DOT \<notin> set fp" by (auto simp: filter_empty_conv)
  from chars b ipn fpn have "(\<forall>x \<in> set ip. isDigit x) \<and> (\<forall>x \<in> set fp. isDigit x)"
    by (auto simp: list_all_iff)
  with b show ?thesis by blast
qed

lemma strUnsignedDecimalLiteral_strict:
  assumes chars: "list_all (\<lambda>c. isDigit c \<or> c = DOT) b"
    and dots: "length (filter (\<lambda>c. c = DOT) b) \<le> 1"
    and digit: "list_ex isDigit b"
  shows "strUnsignedDecimalLiteral b = roundToDouble (decimalValue b)"
proof -
  from digit have bne: "b \<noteq> []" by (auto simp: list_ex_iff)
  from strict_shape [OF chars dots] show ?thesis
  proof
    assume "\<forall>x \<in> set b. isDigit x"
    with bne show ?thesis by (rule unsigned_digits)
  next
    assume "\<exists>ip fp. b = ip @ DOT # fp \<and> (\<forall>x \<in> set ip. isDigit x) \<and> (\<forall>x \<in> set fp. isDigit x)"
    then obtain ip fp where b: "b = ip @ DOT # fp"
      and ip: "\<forall>x \<in> set ip. isDigit x" and fp: "\<forall>x \<in> set fp. isDigit x" by blast
    from digit b not_isDigit_DOT have "ip \<noteq> [] \<or> fp \<noteq> []"
      by (auto simp: list_ex_iff)
    from unsigned_fraction [OF ip fp this] b show ?thesis by simp
  qed
qed

lemma toNumber_strict:
  assumes "strictNumeric s"
  shows "s \<noteq> [] \<and> trim s = s \<and> toNumber s = strictValue s \<and> strictValue s \<noteq> NaN"
proof -
  define b where "b = (case s of [] \<Rightarrow> [] | c # cs \<Rightarrow> if c = PLUS \<or> c = MINUS then cs else s)"
  from assms have chars: "list_all (\<lambda>c. isDigit c \<or> c = DOT) b"
    and dots: "length (filter (\<lambda>c. c = DOT) b) \<le> 1"
    and digit: "list_ex isDigit b"
    by (simp_all add: strictNumeric_def b_def Let_def)
  from digit have bne: "b \<noteq> []" by (auto simp: list_ex_iff)
  then obtain c cs where s: "s = c # cs" by (cases s) (auto simp: b_def)
  have bcases: "(c = PLUS \<or> c = MINUS) \<and> b = cs \<or> c \<noteq> PLUS \<and> c \<noteq> MINUS \<and> b = s"
    using s by (auto simp: b_def)
  have lastb: "last s = last b" using bcases bne s by auto
  have "last b \<in> set b" using bne by simp
  then have nl: "\<not> isSpace (last s)"
    using chars lastb digit_or_dot_not_space by (auto simp: list_all_iff)
  have "isDigit c \<or> c = DOT \<or> c = PLUS \<or> c = MINUS"
    using bcases chars s by (auto simp: list_all_iff)
  then have nh: "\<not> isSpace (hd s)"
    using s digit_or_dot_not_space [of c] by (auto simp: isSpace_def)
  have tr: "trim s = s" using trim_id [of s] s nh nl by simp
  have r: "strUnsignedDecimalLiteral b = roundToDouble (decimalValue b)"
    by (rule strUnsignedDecimalLiteral_strict [OF chars dots digit])
  have nd: "nonDecimalIntegerLiteral s = None"
  proof (cases cs)
    case Nil
    then show ?thesis by (simp add: nonDecimalIntegerLiteral_def s)
  next
    case (Cons p ds)
    show ?thesis
    proof (cases "c = 0x30")
      case True
      then have "b = s" using bcases by auto
      then have "isDigit p \<or> p = DOT" using chars s Cons by simp
      then show ?thesis
        using s Cons by (auto simp: nonDecimalIntegerLiteral_def isDigit_def)
    next
      case False
      then show ?thesis by (simp add: nonDecimalIntegerLiteral_def s Cons)
    qed
  qed
  have dl: "strDecimalLiteral s = strictValue s"
    using bcases r s by (auto simp: strDecimalLiteral_def strictValue_def)
  have "strictValue s \<noteq> NaN"
    using s roundToDouble_not_NaN negate_not_NaN by (simp add: strictValue_def)
  with tr nd s dl show ?thesis by (simp add: toNumber_def)
qed

lemma coerce_Num_iff:
  "(\<exists>n. coerce v = Num n) \<longleftrightarrow> trim v \<noteq> [] \<and> toNumber (trim v) \<noteq> NaN"
  by (auto simp: coerce_def Let_def isNaN_def)

lemma coerce_Num_value: "coerce v = Num n \<Longrightarrow> n = toNumber (trim v)"
  by (auto simp: coerce_def Let_def split: if_splits)

text \<open>
  A value of \<open>2^1024\<close> or more rounds to infinity; the text of a 1 followed by 309 zeros
  is of the strict grammar and denotes such a value.
\<close>

lemma bitLength_gt: "2 ^ k \<le> n \<Longrightarrow> k < bitLength n"
proof (induction k arbitrary: n)
  case 0
  then have "n \<noteq> 0" by (cases "n = 0") simp_all
  then show ?case by (subst bitLength.simps) simp
next
  case (Suc k)
  then have "2 ^ k \<le> n div 2" by simp
  then have "k < bitLength (n div 2)" by (rule Suc.IH)
  moreover from Suc.prems have "n \<noteq> 0" by (cases "n = 0") simp_all
  ultimately show ?case by (subst bitLength.simps) simp
qed

lemma roundToDouble_overflow:
  assumes "2 ^ 1024 \<le> q"
  shows "roundToDouble q = PosInfinity"
proof -
  have "(1::rat) \<le> 2 ^ 1024" by simp
  with assms have q1: "1 \<le> q" by (rule order_trans [rotated])
  then have q0: "\<not> q \<le> 0" by simp
  have "(2::int) ^ 1024 \<le> \<lfloor>q\<rfloor>"
    using assms by (simp add: le_floor_iff)
  then have "(2::nat) ^ 1024 \<le> nat \<lfloor>q\<rfloor>"
    by (simp add: le_nat_iff)
  then have "1024 < bitLength (nat \<lfloor>q\<rfloor>)" by (rule bitLength_gt)
  then have "1024 \<le> binaryExponent q"
    using q1 by (simp add: binaryExponent_def)
  with q0 show ?thesis by (simp add: roundToDouble_def roundWithExponent_def)
qed

lemma digitsValue_zeros: "digitsValue 10 (ds @ replicate n 0x30) = digitsValue 10 ds * 10 ^ n"
proof (induction n)
  case 0
  show ?case by simp
next
  case (Suc n)
  have z: "digitValue 0x30 = 0" by (simp add: digitValue_def isDigit_def)
  have "digitsValue 10 (ds @ replicate (Suc n) 0x30)
      = digitsValue 10 ((ds @ replicate n 0x30) @ [0x30])"
    by (simp add: replicate_append_same)
  also have "\<dots> = 10 * digitsValue 10 (ds @ replicate n 0x30)"
    by (simp add: digitsValue_def z del: replicate_Suc append_assoc)
  finally show ?case using Suc by simp
qed

lemma bigText_value: "decimalValue bigText = 10 ^ 309"
proof -
  have nd: "\<forall>x \<in> set bigText. x \<noteq> DOT" by (auto simp: bigText_def ascii_def)
  then have tw: "takeWhile (\<lambda>c. c \<noteq> DOT) bigText = bigText"
    and dw: "dropWhile (\<lambda>c. c \<noteq> DOT) bigText = []" by simp_all
  have one: "digitsValue 10 (ascii ''1'') = 1"
    by (simp add: digitsValue_def digitValue_def isDigit_def ascii_def)
  have "digitsValue 10 bigText = 10 ^ 309"
    unfolding bigText_def digitsValue_zeros one by simp
  then show ?thesis
    by (simp add: decimalValue_def tw dw digitsValue_def)
qed

lemma bigText_strict: "strictNumeric bigText"
  by code_simp

lemma bigText_Infinity: "strictValue bigText = PosInfinity"
proof -
  have "(2::rat) ^ 1024 \<le> 10 ^ 309" by simp
  then have "roundToDouble (decimalValue bigText) = PosInfinity"
    unfolding bigText_value by (rule roundToDouble_overflow)
  moreover have "strictValue bigText = roundToDouble (decimalValue bigText)"
    by (simp add: strictValue_def bigText_def ascii_def)
  ultimately show ?thesis by simp
qed

text \<open>
  C4, as amended. A cell becomes a number if and only if its trimmed text is not empty
  and \<open>Number\<close> of it is not NaN, and the number is then \<open>Number\<close> of the trimmed text.
  Every text of the strict grammar (optional sign, digits, at most one decimal point, at
  least one digit) becomes a number, the double nearest to its decimal value, which is
  an infinity when the value is beyond the range of doubles; a cell that does not become
  a number is kept as its trimmed text; the empty string, a lone \<open>-\<close> and a lone \<open>.\<close> are
  kept as strings.
\<close>

theorem coerce_numeric:
  "(strictNumeric (trim v) \<longrightarrow>
      coerce v = Num (strictValue (trim v)) \<and> strictValue (trim v) \<noteq> NaN) \<and>
   ((\<exists>n. coerce v = Num n) \<longleftrightarrow> trim v \<noteq> [] \<and> toNumber (trim v) \<noteq> NaN) \<and>
   ((\<exists>n. coerce v = Num n) \<longrightarrow> coerce v = Num (toNumber (trim v))) \<and>
   ((\<nexists>n. coerce v = Num n) \<longrightarrow> coerce v = Str (trim v)) \<and>
   coerce [] = Str [] \<and> coerce [MINUS] = Str [MINUS] \<and> coerce [DOT] = Str [DOT]"
proof -
  have "coerce v = Num (strictValue (trim v)) \<and> strictValue (trim v) \<noteq> NaN"
    if "strictNumeric (trim v)"
    using toNumber_strict [OF that] by (auto simp: coerce_def Let_def isNaN_def)
  moreover have "coerce v = Num (toNumber (trim v))" if "\<exists>n. coerce v = Num n"
    using that coerce_Num_value by blast
  moreover have "coerce v = Str (trim v)" if "\<nexists>n. coerce v = Num n"
    using that
    by (cases "\<not> isNaN (toNumber (trim v)) \<and> trim v \<noteq> []") (simp_all add: coerce_def Let_def)
  moreover have "coerce [] = Str []" "coerce [MINUS] = Str [MINUS]" "coerce [DOT] = Str [DOT]"
    by code_simp+
  ultimately show ?thesis using coerce_Num_iff by blast
qed

text \<open>
  The cell \<open>-12.5\<close> with spaces around it becomes that number; a 1 followed by 309 zeros
  becomes infinity; \<open>1e3\<close> becomes 1000; \<open>12abc\<close> stays a string.
\<close>

theorem coerce_numeric_witness:
  "strictNumeric (trim (ascii '' -12.5 '')) \<and> coerce (ascii '' -12.5 '') = Num (Finite (- 25 / 2)) \<and>
   strictNumeric (trim bigText) \<and> coerce bigText = Num PosInfinity \<and>
   (\<exists>n. coerce (ascii ''1e3'') = Num n) \<and> toNumber (trim (ascii ''1e3'')) = Finite 1000 \<and>
   (\<nexists>n. coerce (ascii ''12abc'') = Num n) \<and> coerce (ascii ''12abc'') = Str (ascii ''12abc'')"
proof -
  have a: "strictNumeric (trim (ascii '' -12.5 ''))" by code_simp
  have av: "strictValue (trim (ascii '' -12.5 '')) = Finite (- 25 / 2)" by code_simp
  have bt: "trim bigText = bigText" using toNumber_strict [OF bigText_strict] by simp
  have b: "strictNumeric (trim bigText)" by (simp add: bt bigText_strict)
  have c: "coerce (ascii ''1e3'') = Num (Finite 1000)"
    and cv: "toNumber (trim (ascii ''1e3'')) = Finite 1000" by code_simp+
  then have ce: "\<exists>n. coerce (ascii ''1e3'') = Num n" by simp
  have d: "coerce (ascii ''12abc'') = Str (ascii ''12abc'')"
    and dt: "trim (ascii ''12abc'') = ascii ''12abc''" by code_simp+
  then have de: "\<nexists>n. coerce (ascii ''12abc'') = Num n" by simp
  from coerce_numeric [of "ascii '' -12.5 ''"] coerce_numeric [of bigText]
    coerce_numeric [of "ascii ''1e3''"] coerce_numeric [of "ascii ''12abc''"]
    a av b bt bigText_Infinity ce cv de d
  show ?thesis by simp
qed

text \<open>
  C4 as stated fails on the cell \<open>1e3\<close>: it is not of the strict grammar, and it becomes
  the number 1000.
\<close>

theorem coerce_exponent_counterexample:
  "coerce (ascii ''1e3'') = Num (Finite 1000) \<and> \<not> strictNumeric (trim (ascii ''1e3''))"
  by code_simp

section \<open>Properties of the request handlers\<close>

text \<open>
  C8. A request whose field is the empty string, or absent, is answered with status 400
  and the error \<open>Missing prompt\<close> or \<open>Missing savedname\<close>; the world is unchanged: no file
  is written and no file-system call is made.
\<close>

theorem missing_field_rejected:
  "compareHtml e now w (JString []) =
     (\<lparr>status = 400, body = [(''error'', ascii ''Missing prompt'')]\<rparr>, w) \<and>
   compareHtml e now w Undefined =
     (\<lparr>status = 400, body = [(''error'', ascii ''Missing prompt'')]\<rparr>, w) \<and>
   dashboard e w (JString []) =
     (\<lparr>status = 400, body = [(''error'', ascii ''Missing savedname'')]\<rparr>, w) \<and>
   dashboard e w Undefined =
     (\<lparr>status = 400, body = [(''error'', ascii ''Missing savedname'')]\<rparr>, w)"
  by (simp add: compareHtml_def dashboard_def falsy_def)

lemma fsWriteFile_ok:
  "writeError e p = None \<Longrightarrow>
   fsWriteFile e w p c = (Inr (), w\<lparr>files := (files w)(p \<mapsto> c), effects := effects w @ [FsWrite p]\<rparr>)"
  by (simp add: fsWriteFile_def)

lemma fsWriteFile_refused:
  "writeError e p = Some err \<Longrightarrow>
   fsWriteFile e w p c = (Inl err, w\<lparr>effects := effects w @ [FsWrite p]\<rparr>)"
  by (simp add: fsWriteFile_def)

lemma compareHtml_accepts:
  "prompt \<noteq> [] \<Longrightarrow>
   compareHtml e now w (JString prompt) =
     (case fsWriteFile e w (pathJoin e (dashboardsDir e) (compareFile now))
             (comparePageHead @ escapeHtml prompt @ comparePageTail) of
        (Inl (Error m), w') \<Rightarrow>
          (\<lparr>status = 500, body = [(''error'', ascii ''Failed to generate comparison HTML''),
                                   (''details'', m)]\<rparr>, w')
      | (Inr _, w') \<Rightarrow>
          (\<lparr>status = 200, body = [(''comparisonUrl'', ascii ''/dashboards/'' @ compareFile now)]\<rparr>, w'))"
  unfolding compareHtml_def compareFile_def Let_def
  by (simp add: falsy_def)

lemma compareHtml_success:
  assumes "prompt \<noteq> []"
    and "writeError e (pathJoin e (dashboardsDir e) (compareFile now)) = None"
  shows "compareHtml e now w (JString prompt) =
     (\<lparr>status = 200, body = [(''comparisonUrl'', ascii ''/dashboards/'' @ compareFile now)]\<rparr>,
      w\<lparr>files := (files w)(pathJoin e (dashboardsDir e) (compareFile now)
                    \<mapsto> comparePageHead @ escapeHtml prompt @ comparePageTail),
        effects := effects w @ [FsWrite (pathJoin e (dashboardsDir e) (compareFile now))]\<rparr>)"
  unfolding compareHtml_accepts [OF assms(1)] fsWriteFile_ok [OF assms(2)]
  by simp

lemma compareHtml_refused:
  assumes "prompt \<noteq> []"
    and "writeError e (pathJoin e (dashboardsDir e) (compareFile now)) = Some err"
  shows "status (fst (compareHtml e now w (JString prompt))) = 500"
  unfolding compareHtml_accepts [OF assms(1)] fsWriteFile_refused [OF assms(2)]
  by (cases err) simp




lemma showNat_1000: "showNat 1000 = ascii ''1000''" by code_simp
lemma showNat_1001: "showNat 1001 = ascii ''1001''" by code_simp

lemma exampleEnv_sel:
  "dashboardsDir exampleEnv = ascii ''/srv/dashboards''"
  "pathJoin exampleEnv = posixJoin"
  "writeError exampleEnv p = None"
  "mkdirError exampleEnv p = None"
  by (simp_all add: exampleEnv_def)



lemma digitChar_cases:
  "d < 10 \<Longrightarrow> d = 0 \<or> d = 1 \<or> d = 2 \<or> d = 3 \<or> d = 4 \<or> d = 5 \<or> d = 6 \<or> d = 7 \<or> d = 8 \<or> d = (9::nat)"
  by arith

lemma digitValue_digitChar: "d < 10 \<Longrightarrow> digitValue (digitChar d) = d"
  using digitChar_cases [of d] by (auto simp: digitValue_def digitChar_def isDigit_def)

lemma digitsValue_snoc: "digitsValue b (xs @ [c]) = b * digitsValue b xs + digitValue c"
  by (simp add: digitsValue_def)

lemma digitsValue_showNat: "digitsValue 10 (showNat n) = n"
proof (induction n rule: showNat.induct)
  case (1 n)
  show ?case
  proof (cases "n < 10")
    case True
    then show ?thesis
      by (subst showNat.simps) (simp add: digitsValue_def digitValue_digitChar)
  next
    case False
    with 1 have "digitsValue 10 (showNat (n div 10)) = n div 10" by simp
    with False show ?thesis
      by (subst showNat.simps) (simp add: digitsValue_snoc digitValue_digitChar)
  qed
qed

lemma showNat_inj: "showNat a = showNat b \<Longrightarrow> a = b"
  by (metis digitsValue_showNat)

lemma compareFile_inj: "compareFile a = compareFile b \<longleftrightarrow> a = b"
  by (auto simp: compareFile_def dest: showNat_inj)

lemma saveHTMLToFile_Inr:
  "saveHTMLToFile e w html name = (Inr p, w') \<Longrightarrow>
   p = pathJoin e (dashboardsDir e) (name @ ascii ''.html'') \<and> files w' p = Some html"
  by (auto simp: saveHTMLToFile_def fsMkdir_def fsWriteFile_def Let_def split: option.splits)

lemma compareHtml_200:
  assumes "\<not> falsy prompt" "compareHtml e now w prompt = (r, w')" "status r = 200"
  shows "body r = [(''comparisonUrl'', ascii ''/dashboards/'' @ compareFile now)]"
proof -
  from assms(1) obtain s where p: "prompt = JString s" and s: "s \<noteq> []"
    by (cases prompt) (auto simp: falsy_def)
  show ?thesis
  proof (cases "writeError e (pathJoin e (dashboardsDir e) (compareFile now))")
    case None
    from compareHtml_success [OF s None, of w] assms(2) p show ?thesis by auto
  next
    case (Some err)
    from compareHtml_refused [OF s Some, of w] assms(2,3) p show ?thesis by simp
  qed
qed

text \<open>
  C7, as amended. Two publications of a table dashboard under the same base name return
  the same path, and after the second one the file holds the second document. Two
  successful comparison requests get the same reference if and only if their timestamps
  are equal; so the references are distinct whenever the clock has moved on.
\<close>

theorem publish_references:
  "(saveHTMLToFile e w1 html1 baseName = (Inr p1, w1') \<and>
    saveHTMLToFile e w2 html2 baseName = (Inr p2, w2') \<longrightarrow>
      p1 = p2 \<and> files w2' p2 = Some html2) \<and>
   (\<not> falsy prompt1 \<and> \<not> falsy prompt2 \<and>
    compareHtml e now1 v1 prompt1 = (r1, v1') \<and> compareHtml e now2 v2 prompt2 = (r2, v2') \<and>
    status r1 = 200 \<and> status r2 = 200 \<longrightarrow>
      (body r1 = body r2 \<longleftrightarrow> now1 = now2))"
proof -
  have "p1 = p2 \<and> files w2' p2 = Some html2"
    if "saveHTMLToFile e w1 html1 baseName = (Inr p1, w1')"
      and "saveHTMLToFile e w2 html2 baseName = (Inr p2, w2')"
    using saveHTMLToFile_Inr [OF that(1)] saveHTMLToFile_Inr [OF that(2)] by blast
  moreover have "body r1 = body r2 \<longleftrightarrow> now1 = now2"
    if "\<not> falsy prompt1" "\<not> falsy prompt2"
      "compareHtml e now1 v1 prompt1 = (r1, v1')" "compareHtml e now2 v2 prompt2 = (r2, v2')"
      "status r1 = 200" "status r2 = 200"
    using compareHtml_200 [OF that(1,3,5)] compareHtml_200 [OF that(2,4,6)]
    by (simp add: compareFile_inj)
  ultimately show ?thesis by blast
qed

lemma saveHTMLToFile_example:
  "saveHTMLToFile exampleEnv w html (ascii ''report'') =
     (Inr (ascii ''/srv/dashboards/report.html''),
      w\<lparr>files := (files w)(ascii ''/srv/dashboards/report.html'' \<mapsto> html),
        effects := effects w @ [FsMkdir (ascii ''/srv/dashboards''),
                                FsWrite (ascii ''/srv/dashboards/report.html'')]\<rparr>)"
proof -
  have path: "posixJoin (ascii ''/srv/dashboards'') (ascii ''report'' @ ascii ''.html'')
      = ascii ''/srv/dashboards/report.html''"
    by (simp add: posixJoin_def ascii_def)
  show ?thesis
    by (simp add: saveHTMLToFile_def fsMkdir_def fsWriteFile_def exampleEnv_sel path Let_def)
qed

lemma compareHtml_example:
  "s \<noteq> [] \<Longrightarrow>
   compareHtml exampleEnv 1000 w (JString s) =
     (\<lparr>status = 200, body = [(''comparisonUrl'', ascii ''/dashboards/compare-1000.html'')]\<rparr>,
      w\<lparr>files := (files w)(ascii ''/srv/dashboards/compare-1000.html''
                     \<mapsto> comparePageHead @ escapeHtml s @ comparePageTail),
        effects := effects w @ [FsWrite (ascii ''/srv/dashboards/compare-1000.html'')]\<rparr>)"
proof -
  assume s: "s \<noteq> []"
  have ok: "writeError exampleEnv
      (pathJoin exampleEnv (dashboardsDir exampleEnv) (compareFile 1000)) = None"
    by (simp add: exampleEnv_sel)
  have cf: "compareFile 1000 = ascii ''compare-1000.html''"
    by (simp add: compareFile_def showNat_1000 ascii_def)
  have url: "ascii ''/dashboards/'' @ ascii ''compare-1000.html'' = ascii ''/dashboards/compare-1000.html''"
    by (simp add: ascii_def)
  have path: "posixJoin (ascii ''/srv/dashboards'') (ascii ''compare-1000.html'')
      = ascii ''/srv/dashboards/compare-1000.html''"
    by (simp add: posixJoin_def ascii_def)
  from compareHtml_success [OF s ok, of w] show ?thesis
    by (simp add: exampleEnv_sel cf url path)
qed

lemma compareHtml_example_1001:
  "s \<noteq> [] \<Longrightarrow>
   fst (compareHtml exampleEnv 1001 w (JString s)) =
     \<lparr>status = 200, body = [(''comparisonUrl'', ascii ''/dashboards/compare-1001.html'')]\<rparr>"
proof -
  assume s: "s \<noteq> []"
  have ok: "writeError exampleEnv
      (pathJoin exampleEnv (dashboardsDir exampleEnv) (compareFile 1001)) = None"
    by (simp add: exampleEnv_sel)
  have cf: "compareFile 1001 = ascii ''compare-1001.html''"
    by (simp add: compareFile_def showNat_1001 ascii_def)
  have url: "ascii ''/dashboards/'' @ ascii ''compare-1001.html'' = ascii ''/dashboards/compare-1001.html''"
    by (simp add: ascii_def)
  from compareHtml_success [OF s ok, of w] show ?thesis
    by (simp add: cf url)
qed

text \<open>
  C7 as stated fails for two comparison requests in the same millisecond: both get the
  reference \<open>/dashboards/compare-1000.html\<close>, and the second document replaces the first.
\<close>

theorem compareHtml_same_millisecond_counterexample:
  "fst firstCompare =
     \<lparr>status = 200, body = [(''comparisonUrl'', ascii ''/dashboards/compare-1000.html'')]\<rparr> \<and>
   fst secondCompare =
     \<lparr>status = 200, body = [(''comparisonUrl'', ascii ''/dashboards/compare-1000.html'')]\<rparr> \<and>
   files (snd firstCompare) (ascii ''/srv/dashboards/compare-1000.html'') =
     Some (comparePageHead @ ascii ''first'' @ comparePageTail) \<and>
   files (snd secondCompare) (ascii ''/srv/dashboards/compare-1000.html'') =
     Some (comparePageHead @ ascii ''second'' @ comparePageTail)"
proof -
  have a: "ascii ''first'' \<noteq> []" and b: "ascii ''second'' \<noteq> []" by (simp_all add: ascii_def)
  have e1: "escapeHtml (ascii ''first'') = ascii ''first''"
    and e2: "escapeHtml (ascii ''second'') = ascii ''second''" by code_simp+
  show ?thesis
    by (simp add: firstCompare_def secondCompare_def compareHtml_example [OF a]
        compareHtml_example [OF b] e1 e2)
qed

text \<open>
  Two publications as \<open>report\<close>, and two comparison requests at times 1000 and 1001.
\<close>

theorem publish_references_witness:
  "fst firstSave = Inr (ascii ''/srv/dashboards/report.html'') \<and>
   fst secondSave = Inr (ascii ''/srv/dashboards/report.html'') \<and>
   files (snd secondSave) (ascii ''/srv/dashboards/report.html'') = Some (ascii ''<p>two</p>'') \<and>
   \<not> falsy (JString (ascii ''first'')) \<and> \<not> falsy (JString (ascii ''second'')) \<and>
   status (fst firstCompare) = 200 \<and> status (fst laterCompare) = 200 \<and>
   body (fst firstCompare) \<noteq> body (fst laterCompare)"
proof -
  have f1: "fst firstSave = Inr (ascii ''/srv/dashboards/report.html'')"
    and f2: "fst secondSave = Inr (ascii ''/srv/dashboards/report.html'')"
    by (simp_all add: firstSave_def secondSave_def saveHTMLToFile_example)
  have h1: "saveHTMLToFile exampleEnv emptyWorld (ascii ''<p>one</p>'') (ascii ''report'')
      = (Inr (ascii ''/srv/dashboards/report.html''), snd firstSave)"
    using f1 by (simp add: firstSave_def prod_eq_iff)
  have h2: "saveHTMLToFile exampleEnv (snd firstSave) (ascii ''<p>two</p>'') (ascii ''report'')
      = (Inr (ascii ''/srv/dashboards/report.html''), snd secondSave)"
    using f2 by (simp add: secondSave_def prod_eq_iff)
  have a: "ascii ''first'' \<noteq> []" and b: "ascii ''second'' \<noteq> []" by (simp_all add: ascii_def)
  then have g: "\<not> falsy (JString (ascii ''first''))" "\<not> falsy (JString (ascii ''second''))"
    by (simp_all add: falsy_def)
  have c1: "status (fst firstCompare) = 200"
    by (simp add: firstCompare_def compareHtml_example [OF a])
  have c2: "status (fst laterCompare) = 200"
    by (simp add: laterCompare_def compareHtml_example_1001 [OF b])
  have k1: "compareHtml exampleEnv 1000 emptyWorld (JString (ascii ''first''))
      = (fst firstCompare, snd firstCompare)"
    by (simp add: firstCompare_def)
  have k2: "compareHtml exampleEnv 1001 (snd firstCompare) (JString (ascii ''second''))
      = (fst laterCompare, snd laterCompare)"
    by (simp add: laterCompare_def)
  have ne: "(1000::nat) \<noteq> 1001" by simp
  from publish_references [of exampleEnv emptyWorld "ascii ''<p>one</p>''" "ascii ''report''"
      "ascii ''/srv/dashboards/report.html''" "snd firstSave" "snd firstSave"
      "ascii ''<p>two</p>''" "ascii ''/srv/dashboards/report.html''" "snd secondSave"
      "JString (ascii ''first'')" "JString (ascii ''second'')" 1000 emptyWorld
      "fst firstCompare" "snd firstCompare" 1001 "snd firstCompare"
      "fst laterCompare" "snd laterCompare"]
    h1 h2 g c1 c2 k1 k2 ne
  have "files (snd secondSave) (ascii ''/srv/dashboards/report.html'') = Some (ascii ''<p>two</p>'')"
    and "body (fst firstCompare) \<noteq> body (fst laterCompare)"
    by blast+
  with f1 f2 g c1 c2 show ?thesis by blast
qed

section \<open>Properties of the renderer\<close>

lemma xss_parse:
  "parseTable xssText =
     Inr \<lparr>headers = [ascii ''<script>alert(1)</script>'', ascii ''B''],
          values' = [[Str (ascii ''<b>x</b>''), Num (Finite 2)]]\<rparr>"
  by code_simp

lemma xss_render:
  "generateHTML exampleNumberToString [ascii ''<script>alert(1)</script>'', ascii ''B'']
       [[Str (ascii ''<b>x</b>''), Num (Finite 2)]] =
     pageHead @ ascii ''<tr><th><script>alert(1)</script></th><th>B</th></tr>''
     @ pageMiddle @ ascii ''<tr><td><b>x</b></td><td>2</td></tr>'' @ pageTail"
proof -
  have "tableHeader [ascii ''<script>alert(1)</script>'', ascii ''B'']
      = ascii ''<tr><th><script>alert(1)</script></th><th>B</th></tr>''"
    by code_simp
  moreover have "tableRows exampleNumberToString [[Str (ascii ''<b>x</b>''), Num (Finite 2)]]
      = ascii ''<tr><td><b>x</b></td><td>2</td></tr>''"
    by code_simp
  ultimately show ?thesis by (simp add: generateHTML_def)
qed

lemma dashboard_example:
  "dashboard exampleEnv emptyWorld (JString (ascii ''report.pdf'')) =
     (\<lparr>status = 200, body = [(''dashboardUrl'', ascii ''/dashboards/report.html'')]\<rparr>,
      \<lparr>files = (\<lambda>p. None)(ascii ''/srv/dashboards/report.html'' \<mapsto>
          generateHTML exampleNumberToString [ascii ''<script>alert(1)</script>'', ascii ''B'']
            [[Str (ascii ''<b>x</b>''), Num (Finite 2)]]),
       effects = [FsRead (ascii ''/srv/backend/uploads/report.pdf''),
                  FsMkdir (ascii ''/srv/dashboards''),
                  FsWrite (ascii ''/srv/dashboards/report.html'')]\<rparr>)"
proof -
  have nf: "\<not> falsy (JString (ascii ''report.pdf''))" by (simp add: falsy_def ascii_def)
  have pdf: "posixJoin (ascii ''/srv/backend/uploads'') (ascii ''report.pdf'')
      = ascii ''/srv/backend/uploads/report.pdf''"
    by (simp add: posixJoin_def ascii_def)
  have rd: "readPdf exampleEnv (ascii ''/srv/backend/uploads/report.pdf'') = Inr xssText"
    by (simp add: exampleEnv_def)
  have b1: "posixBasename (ascii ''/srv/backend/uploads/report.pdf'') (Some (ascii ''.pdf''))
      = ascii ''report''"
    by code_simp
  have b2: "posixBasename (ascii ''/srv/dashboards/report.html'') None = ascii ''report.html''"
    by code_simp
  have url: "ascii ''/dashboards/'' @ ascii ''report.html'' = ascii ''/dashboards/report.html''"
    by (simp add: ascii_def)
  have sel: "uploadsDir exampleEnv = ascii ''/srv/backend/uploads''"
    "pathBasename exampleEnv = posixBasename" "numberToString exampleEnv = exampleNumberToString"
    by (simp_all add: exampleEnv_def)
  show ?thesis
    unfolding dashboard_def pdfTableToHTMLDashboard_def extractTable_def fsReadPdf_def
    by (simp add: nf sel exampleEnv_sel pdf rd xss_parse b1 b2 url saveHTMLToFile_example
        emptyWorld_def)
qed

text \<open>
  C1. The claim is that the dashboard document escapes every header and cell. It does
  not: the renderer puts headers and string cells into the markup as they are. The text
  \<^verbatim>\<open>"<script>alert(1)</script>\tB\n<b>x</b>\t2"\<close> parses to a table whose first header and
  first cell hold markup; the document rendered from it, which the \<open>/dashboard\<close> handler
  writes for the upload \<open>report.pdf\<close>, holds that markup unescaped, whereas \<open>escapeHtml\<close>,
  which the comparison handler applies to what it embeds, turns it into entities.
\<close>

theorem generateHTML_embeds_raw_markup:
  "parseTable xssText =
     Inr \<lparr>headers = [ascii ''<script>alert(1)</script>'', ascii ''B''],
          values' = [[Str (ascii ''<b>x</b>''), Num (Finite 2)]]\<rparr> \<and>
   generateHTML exampleNumberToString [ascii ''<script>alert(1)</script>'', ascii ''B'']
       [[Str (ascii ''<b>x</b>''), Num (Finite 2)]] =
     pageHead @ ascii ''<tr><th><script>alert(1)</script></th><th>B</th></tr>''
     @ pageMiddle @ ascii ''<tr><td><b>x</b></td><td>2</td></tr>'' @ pageTail \<and>
   fst (dashboard exampleEnv emptyWorld (JString (ascii ''report.pdf''))) =
     \<lparr>status = 200, body = [(''dashboardUrl'', ascii ''/dashboards/report.html'')]\<rparr> \<and>
   files (snd (dashboard exampleEnv emptyWorld (JString (ascii ''report.pdf''))))
       (ascii ''/srv/dashboards/report.html'') =
     Some (pageHead @ ascii ''<tr><th><script>alert(1)</script></th><th>B</th></tr>''
           @ pageMiddle @ ascii ''<tr><td><b>x</b></td><td>2</td></tr>'' @ pageTail) \<and>
   escapeHtml (ascii ''<script>alert(1)</script>'') = ascii ''&lt;script&gt;alert(1)&lt;/script&gt;'' \<and>
   escapeHtml (ascii ''<b>x</b>'') = ascii ''&lt;b&gt;x&lt;/b&gt;''"
proof -
  have "escapeHtml (ascii ''<script>alert(1)</script>'') = ascii ''&lt;script&gt;alert(1)&lt;/script&gt;''"
    and "escapeHtml (ascii ''<b>x</b>'') = ascii ''&lt;b&gt;x&lt;/b&gt;''"
    by code_simp+
  then show ?thesis
    by (simp add: xss_parse xss_render dashboard_example)
qed

end
